theory Spec2Isabelle
  imports Main "HOL-Library.Sublist"
begin

section \<open>Python values, exceptions and effects\<close>

text \<open>
  Parsed JSON, as \<open>response.json()\<close> returns it.  Numbers are integers: the code
  only compares a value against the string \<open>"200"\<close>.  An object is the list of
  its items.
\<close>

datatype json =
    JNull
  | JBool bool
  | JNum int
  | JStr string
  | JList "json list"
  | JObj "(string \<times> json) list"

text \<open>
  Every way a call can end other than by returning: \<open>sys.exit(n)\<close> raises
  \<open>SystemExit n\<close>; a missing dictionary key raises \<open>KeyError\<close>; subscripting or
  \<open>in\<close> on a value that does not support it raises \<open>TypeError\<close>;
  \<open>response.json()\<close> on a body that is not JSON raises \<open>JSONDecodeError\<close>;
  \<open>requests.post\<close> raises a \<open>RequestException\<close> on a timeout or a failed
  connection.  None of them is caught anywhere in the program.
\<close>

datatype py_error =
    SystemExit int
  | KeyError string
  | TypeError
  | JSONDecodeError
  | RequestException

definition apos :: string where
  "apos = [CHR 0x27]"

definition truthy :: "string option \<Rightarrow> bool" where
  "truthy x = (case x of None \<Rightarrow> False | Some s \<Rightarrow> s \<noteq> [])"

definition dict_getitem :: "(string \<times> 'v) list \<Rightarrow> string \<Rightarrow> py_error + 'v" where
  "dict_getitem d k = (case map_of d k of None \<Rightarrow> Inl (KeyError k) | Some v \<Rightarrow> Inr v)"

fun getitem :: "json \<Rightarrow> string \<Rightarrow> py_error + json" where
  "getitem (JObj d) k = dict_getitem d k"
| "getitem _ k = Inl TypeError"

fun contains :: "string \<Rightarrow> json \<Rightarrow> py_error + bool" where
  "contains k (JObj d) = Inr (k \<in> set (map fst d))"
| "contains k (JList xs) = Inr (JStr k \<in> set xs)"
| "contains k (JStr s) = Inr (sublist k s)"
| "contains k _ = Inl TypeError"

subsection \<open>The objects\<close>

text \<open>The dictionary \<open>self.api_payload["ins_api"]\<close>: six fixed keys, all strings.\<close>

record ins_api_dict =
  version :: string
  type :: string
  chunk :: string
  sid :: string
  input :: string
  output_format :: string

record payload_dict =
  ins_api :: ins_api_dict

record mds_client =
  ip_address :: string
  username :: string
  password :: string
  api_headers :: "(string \<times> string) list"
  api_payload :: payload_dict
  api_timeout :: int
  api_type_config :: string
  api_type_show :: string
  api_url :: string
  api_verify :: bool

text \<open>The keyword arguments of \<open>requests.post\<close>; \<open>data\<close> is the dumped payload.\<close>

record http_request =
  url :: string
  data :: payload_dict
  headers :: "(string \<times> string) list"
  auth :: "string \<times> string"
  timeout :: int
  verify :: bool

text \<open>A response: its status code and its body (\<open>None\<close> when it is not JSON).\<close>

record response =
  status_code :: int
  body :: "json option"

datatype http_outcome = NoResponse | Reply response

datatype level = DEBUG | INFO | WARNING | ERROR

datatype logarg =
    AStr string
  | AInt int
  | ABool bool
  | ANone
  | AJson json
  | APayload payload_dict
  | ADict "(string \<times> string) list"
  | ADicts "(string \<times> string) list list"

text \<open>What the program does to the outside: a logger call, or a POST.\<close>

datatype event =
    Log level string "logarg list"
  | Post http_request

text \<open>
  What the Intersight SDK returns for a list call: \<open>ApiException\<close> raised, or a
  result object whose \<open>results\<close> is the list (empty when nothing matched).
\<close>

datatype 'a api_result = ApiException | Results "'a list"

record vnic_fc_if =
  vnic_wwpn :: string
  vnic_name :: string
  placement_switch_id :: string

record intersight_client =
  get_organization_organization_list :: "string \<Rightarrow> string api_result"
  get_server_profile_list :: "string \<Rightarrow> string api_result"
  get_vnic_fc_if_list :: "string \<Rightarrow> vnic_fc_if api_result"

text \<open>
  The store holds the \<open>MdsClient\<close> objects by address; the trace is everything
  logged and posted so far, oldest first; \<open>network\<close> is the switches' side: what comes back
  for a request, given all that happened before it.
\<close>

type_synonym addr = nat

record state =
  heap :: "addr \<Rightarrow> mds_client"
  trace :: "event list"
  network :: "event list \<Rightarrow> http_request \<Rightarrow> http_outcome"

type_synonym 'a prog = "state \<Rightarrow> (py_error + 'a) \<times> state"

definition returnE :: "'a \<Rightarrow> 'a prog" where
  "returnE x = (\<lambda>s. (Inr x, s))"

definition raise :: "py_error \<Rightarrow> 'a prog" where
  "raise e = (\<lambda>s. (Inl e, s))"

definition bindE :: "'a prog \<Rightarrow> ('a \<Rightarrow> 'b prog) \<Rightarrow> 'b prog" where
  "bindE m f = (\<lambda>s. case m s of (Inl e, s') \<Rightarrow> (Inl e, s') | (Inr x, s') \<Rightarrow> f x s')"

definition liftE :: "py_error + 'a \<Rightarrow> 'a prog" where
  "liftE r = (case r of Inl e \<Rightarrow> raise e | Inr x \<Rightarrow> returnE x)"

definition sys_exit :: "int \<Rightarrow> 'a prog" where
  "sys_exit n = raise (SystemExit n)"

definition logger :: "level \<Rightarrow> string \<Rightarrow> logarg list \<Rightarrow> unit prog" where
  "logger lvl fmt args = (\<lambda>s. (Inr (), s\<lparr>trace := trace s @ [Log lvl fmt args]\<rparr>))"

definition get_self :: "addr \<Rightarrow> mds_client prog" where
  "get_self self = (\<lambda>s. (Inr (heap s self), s))"

definition set_self :: "addr \<Rightarrow> mds_client \<Rightarrow> unit prog" where
  "set_self self c = (\<lambda>s. (Inr (), s\<lparr>heap := (heap s)(self := c)\<rparr>))"

definition requests_post :: "http_request \<Rightarrow> response prog" where
  "requests_post req = (\<lambda>s.
     (case network s (trace s) req of
        NoResponse \<Rightarrow> Inl RequestException
      | Reply r \<Rightarrow> Inr r,
      s\<lparr>trace := trace s @ [Post req]\<rparr>))"

definition response_json :: "response \<Rightarrow> json prog" where
  "response_json r = (case body r of None \<Rightarrow> raise JSONDecodeError | Some j \<Rightarrow> returnE j)"

section \<open>mds_client_class.py\<close>

text \<open>\<open>MdsClient.__init__\<close>, storing the new object at \<open>self\<close>.\<close>

definition MdsClient_init ::
  "addr \<Rightarrow> string option \<Rightarrow> string option \<Rightarrow> string option \<Rightarrow> unit prog" where
  "MdsClient_init self mds_ip_address mds_username mds_password =
     bindE (logger INFO
        ''Initializing `MDSClient` instance with IP address '%s' and username '%s'.\<newline>''
        [case mds_ip_address of None \<Rightarrow> ANone | Some x \<Rightarrow> AStr x,
         case mds_username of None \<Rightarrow> ANone | Some x \<Rightarrow> AStr x]) (\<lambda>_.
     if \<not> truthy mds_ip_address then
       bindE (logger ERROR ''MDS IP address is not provided.\<newline>'' []) (\<lambda>_. sys_exit 1)
     else if \<not> truthy mds_username then
       bindE (logger ERROR ''MDS username is not provided.\<newline>'' []) (\<lambda>_. sys_exit 1)
     else if \<not> truthy mds_password then
       bindE (logger ERROR ''MDS password is not provided.\<newline>'' []) (\<lambda>_. sys_exit 1)
     else
       set_self self
         \<lparr>ip_address = the mds_ip_address,
          username = the mds_username,
          password = the mds_password,
          api_headers = [(''Content-Type'', ''application/json''),
                         (''Accept'', ''application/json'')],
          api_payload = \<lparr>ins_api =
            \<lparr>version = ''1.0'', type = '''', chunk = ''0'', sid = ''1'', input = '''',
             output_format = ''json''\<rparr>\<rparr>,
          api_timeout = 10,
          api_type_config = ''cli_conf'',
          api_type_show = ''cli_show'',
          api_url = ''https://'' @ the mds_ip_address @ '':8443/ins'',
          api_verify = False\<rparr>)"

text \<open>
  \<open>post_request\<close>.  \<open>payload = self.api_payload\<close> binds a second name to the client's own
  dictionary, so the two item assignments that follow write into \<open>self.api_payload\<close>.
\<close>

definition post_request :: "addr \<Rightarrow> string \<Rightarrow> string \<Rightarrow> response prog" where
  "post_request self request_input request_type =
     bindE (get_self self) (\<lambda>c0.
     bindE (set_self self (c0\<lparr>api_payload :=
        (api_payload c0)\<lparr>ins_api := (ins_api (api_payload c0))\<lparr>input := request_input\<rparr>\<rparr>\<rparr>)) (\<lambda>_.
     bindE (get_self self) (\<lambda>c1.
     bindE (set_self self (c1\<lparr>api_payload :=
        (api_payload c1)\<lparr>ins_api := (ins_api (api_payload c1))\<lparr>type := request_type\<rparr>\<rparr>\<rparr>)) (\<lambda>_.
     bindE (logger INFO
        ''Sending POST request to MDS switch of type '%s' with input '%s'.\<newline>''
        [AStr request_type, AStr request_input]) (\<lambda>_.
     bindE (get_self self) (\<lambda>c.
     bindE (logger DEBUG
        ''POST Request Details:\<newline>Payload: %s\<newline>Headers: %s\<newline>URL: %s\<newline>Timeout: %s\<newline>Verify SSL: %s\<newline>''
        [APayload (api_payload c), ADict (api_headers c), AStr (api_url c),
         AInt (api_timeout c), ABool (api_verify c)]) (\<lambda>_.
     bindE (requests_post
        \<lparr>url = api_url c, data = api_payload c, headers = api_headers c,
         auth = (username c, password c), timeout = api_timeout c,
         verify = api_verify c\<rparr>) (\<lambda>response.
     bindE (if status_code response = 200 then
          bindE (logger INFO
             ''POST request of type '%s' with input '%s' to MDS `%s`was successful.\<newline>''
             [AStr (ip_address c), AStr request_type, AStr request_input]) (\<lambda>_.
          bindE (response_json response) (\<lambda>j.
          logger DEBUG
             ''Response Details from MDS `%s`:\<newline>Status Code: %s\<newline>Content: %s\<newline>''
             [AStr (ip_address c), AInt (status_code response), AJson j]))
        else
          bindE (response_json response) (\<lambda>j.
          bindE (logger ERROR
             ''POST request failed with status code: '%s' and response content: '%s'.\<newline>''
             [AInt (status_code response), AJson j]) (\<lambda>_.
          sys_exit 1))) (\<lambda>_.
     bindE (response_json response) (\<lambda>j.
     bindE (liftE (getitem j ''ins_api'')) (\<lambda>j1.
     bindE (liftE (getitem j1 ''outputs'')) (\<lambda>j2.
     bindE (liftE (getitem j2 ''output'')) (\<lambda>output.
     bindE (liftE (contains ''code'' output)) (\<lambda>has_code.
     bindE (if has_code then
          bindE (liftE (getitem output ''code'')) (\<lambda>code.
          if code \<noteq> JStr ''200'' then
            logger ERROR
              ''CLI command pushed to MDS `%s` generated the following error:%s\<newline>''
              [AStr (ip_address c), AJson output]
          else returnE ())
        else returnE ()) (\<lambda>_.
     returnE response)))))))))))))))"

definition activate_zoneset :: "addr \<Rightarrow> string \<Rightarrow> string \<Rightarrow> json prog" where
  "activate_zoneset self zoneset_name vsan_id =
     bindE (logger INFO ''Activating zoneset '%s' in VSAN '%s'.\<newline>''
        [AStr zoneset_name, AStr vsan_id]) (\<lambda>_.
     let command = ''zoneset activate name '' @ zoneset_name @ '' vsan '' @ vsan_id in
     bindE (logger INFO ''Constructed command to activate zoneset: '%s'.\<newline>''
        [AStr command]) (\<lambda>_.
     bindE (get_self self) (\<lambda>c.
     bindE (post_request self command (api_type_config c)) (\<lambda>response.
     response_json response))))"

definition add_device_alias :: "addr \<Rightarrow> string \<Rightarrow> string \<Rightarrow> json prog" where
  "add_device_alias self device_alias_name wwpn =
     bindE (logger INFO ''Adding device alias '%s' with WWPN '%s'.\<newline>''
        [AStr device_alias_name, AStr wwpn]) (\<lambda>_.
     let command = ''device-alias database ;device-alias name '' @ device_alias_name
           @ '' pwwn '' @ wwpn @ '' ;device-alias commit'' in
     bindE (logger INFO ''Constructed command to add device alias: '%s'.\<newline>''
        [AStr command]) (\<lambda>_.
     bindE (get_self self) (\<lambda>c.
     bindE (post_request self command (api_type_config c)) (\<lambda>response.
     response_json response))))"

definition add_zone_to_zoneset :: "addr \<Rightarrow> string \<Rightarrow> string \<Rightarrow> string \<Rightarrow> json prog" where
  "add_zone_to_zoneset self zone_name zoneset_name vsan_id =
     bindE (logger INFO ''Adding zone '%s' to zoneset '%s' in VSAN '%s'.\<newline>''
        [AStr zone_name, AStr zoneset_name, AStr vsan_id]) (\<lambda>_.
     let command = ''zoneset name '' @ zoneset_name @ '' vsan '' @ vsan_id
           @ '' ;member '' @ zone_name in
     bindE (logger INFO ''Constructed command to add zone to zoneset: '%s'.\<newline>''
        [AStr command]) (\<lambda>_.
     bindE (get_self self) (\<lambda>c.
     bindE (post_request self command (api_type_config c)) (\<lambda>response.
     response_json response))))"

definition configure_zone :: "addr \<Rightarrow> string \<Rightarrow> string \<Rightarrow> json prog" where
  "configure_zone self zone_name vsan_id =
     bindE (logger INFO (''Configuring zone '%s' in VSAN '%s'.'')
        [AStr zone_name, AStr vsan_id]) (\<lambda>_.
     let command = ''zone name '' @ zone_name @ '' vsan '' @ vsan_id in
     bindE (logger INFO ''Constructed command to configure zone: '%s'.\<newline>''
        [AStr command]) (\<lambda>_.
     bindE (get_self self) (\<lambda>c.
     bindE (post_request self command (api_type_config c)) (\<lambda>response.
     response_json response))))"

text \<open>
  \<open>configure_zone_and_add_member\<close>.  After the first check one of the two names is
  truthy, so \<open>command\<close> is always bound when the request is sent.
\<close>

definition configure_zone_and_add_member ::
  "addr \<Rightarrow> string \<Rightarrow> string \<Rightarrow> string option \<Rightarrow> string option \<Rightarrow> json prog" where
  "configure_zone_and_add_member self zone_name vsan_id wwpn device_alias_name =
     (if \<not> truthy wwpn \<and> \<not> truthy device_alias_name then
        bindE (logger ERROR
           ''Either member WWPN or device alias name must be provided.\<newline>'' []) (\<lambda>_.
        sys_exit 1)
      else
        bindE (if truthy device_alias_name then
             bindE (logger INFO
                ''Adding member with device alias '%s' to zone '%s' in VSAN '%s'.\<newline>''
                [AStr (the device_alias_name), AStr zone_name, AStr vsan_id]) (\<lambda>_.
             let command = ''zone name '' @ zone_name @ '' vsan '' @ vsan_id
                   @ '' ;member device-alias '' @ the device_alias_name in
             bindE (logger INFO
                (''Constructed command to add member to zone: '%s'' @ apos @ ''\<newline>'')
                [AStr command]) (\<lambda>_.
             returnE command))
           else
             bindE (logger INFO
                ''Adding member with WWPN '%s' to zone '%s' in VSAN '%s'.\<newline>''
                [AStr (the wwpn), AStr zone_name, AStr vsan_id]) (\<lambda>_.
             let command = ''zone name '' @ zone_name @ '' vsan '' @ vsan_id
                   @ '' ;member pwwn '' @ the wwpn in
             bindE (logger INFO
                ''Constructed command to add member to zone: '%s'.\<newline>''
                [AStr command]) (\<lambda>_.
             returnE command))) (\<lambda>command.
        bindE (get_self self) (\<lambda>c.
        bindE (post_request self command (api_type_config c)) (\<lambda>response.
        response_json response))))"

definition fetch_zone_info :: "addr \<Rightarrow> string \<Rightarrow> string \<Rightarrow> json prog" where
  "fetch_zone_info self zone_name vsan_id =
     bindE (logger INFO ''Fetching zone information for zone '%s' in VSAN '%s'.\<newline>''
        [AStr zone_name, AStr vsan_id]) (\<lambda>_.
     let command = ''show zone name '' @ zone_name @ '' vsan '' @ vsan_id in
     bindE (logger INFO ''Constructed command to fetch zone information: %s.\<newline>''
        [AStr command]) (\<lambda>_.
     bindE (get_self self) (\<lambda>c.
     bindE (post_request self command (api_type_show c)) (\<lambda>response.
     response_json response))))"

section \<open>intersight_client_class.py\<close>

definition fetch_organization_moid_from_organization_name ::
  "intersight_client \<Rightarrow> string \<Rightarrow> string prog" where
  "fetch_organization_moid_from_organization_name self organization_name =
     bindE (logger INFO
        ''Fetching Organization moid filtered by Organization name '%s'\<newline>''
        [AStr organization_name]) (\<lambda>_.
     let filter_str = ''Name eq '' @ apos @ organization_name @ apos in
     case get_organization_organization_list self filter_str of
       ApiException \<Rightarrow>
         bindE (logger WARNING
            ''Exception when calling OrganizationApi->get_organization_organization_list: '%s'\<newline>''
            [AStr ''ApiException'']) (\<lambda>_.
         sys_exit 1)
     | Results results \<Rightarrow>
         (case results of
            organization_moid # _ \<Rightarrow>
              bindE (logger INFO ''Moid of the Organization name '%s' is '%s'\<newline>''
                 [AStr organization_name, AStr organization_moid]) (\<lambda>_.
              returnE organization_moid)
          | [] \<Rightarrow>
              bindE (logger ERROR
                 ''Organization with name '%s' not found in Intersight\<newline>''
                 [AStr organization_name]) (\<lambda>_.
              sys_exit 1)))"

definition fetch_server_profile_moid_from_server_profile_name_and_organization_moid ::
  "intersight_client \<Rightarrow> string \<Rightarrow> string \<Rightarrow> string prog" where
  "fetch_server_profile_moid_from_server_profile_name_and_organization_moid
       self server_profile_name organization_moid =
     bindE (logger INFO
        ''Fetching Server Profile moid filtered by Server Profile name '%s' and Organization moid `%s`\<newline>''
        [AStr server_profile_name, AStr organization_moid]) (\<lambda>_.
     let filter_str = ''Name eq '' @ apos @ server_profile_name @ apos
           @ '' and Organization.Moid eq '' @ apos @ organization_moid @ apos in
     case get_server_profile_list self filter_str of
       ApiException \<Rightarrow>
         bindE (logger WARNING
            ''Exception when calling ServerApi->get_server_profile_list: '%s'\<newline>''
            [AStr ''ApiException'']) (\<lambda>_.
         sys_exit 1)
     | Results results \<Rightarrow>
         (case results of
            server_profile_moid # _ \<Rightarrow>
              bindE (logger INFO ''Moid of the Server Profile name '%s' is '%s'\<newline>''
                 [AStr server_profile_name, AStr server_profile_moid]) (\<lambda>_.
              returnE server_profile_moid)
          | [] \<Rightarrow>
              bindE (logger ERROR
                 ''Server Profile with name '%s' with Organization moid `%s` not found in Intersight\<newline>''
                 [AStr server_profile_name, AStr organization_moid]) (\<lambda>_.
              sys_exit 1)))"

text \<open>The dictionary \<open>fetch_vhba_from_server_profile_moid\<close> builds for one vHBA.\<close>

definition vhba_dict :: "vnic_fc_if \<Rightarrow> (string \<times> string) list" where
  "vhba_dict vnic_fc_if =
     [(''vhba_wwpn'', vnic_wwpn vnic_fc_if),
      (''vhba_name'', vnic_name vnic_fc_if),
      (''vhba_fabric'', placement_switch_id vnic_fc_if)]"

definition fetch_vhba_from_server_profile_moid ::
  "intersight_client \<Rightarrow> string \<Rightarrow> (string \<times> string) list list prog" where
  "fetch_vhba_from_server_profile_moid self server_profile_moid =
     bindE (logger INFO
        ''Fetching vHBAs attached to a Server Profile filtered by Server Profile moid '%s'\<newline>''
        [AStr server_profile_moid]) (\<lambda>_.
     let filter_str = ''Profile.Moid eq '' @ apos @ server_profile_moid @ apos in
     case get_vnic_fc_if_list self filter_str of
       ApiException \<Rightarrow>
         bindE (logger WARNING
            ''Exception when calling VnicApi->get_vnic_fc_if_list: '%s'\<newline>''
            [AStr ''ApiException'']) (\<lambda>_.
         sys_exit 1)
     | Results results \<Rightarrow>
         (if results \<noteq> [] then
            let vhba_list = map vhba_dict results in
            bindE (logger INFO
               ''List of vHBAs attached to Server Profile with moid '%s' is '%s'\<newline>''
               [AStr server_profile_moid, ADicts vhba_list]) (\<lambda>_.
            returnE vhba_list)
          else
            bindE (logger ERROR
               ''vHBAs not found in Intersight for Server Profile with moid '%s'\<newline>''
               [AStr server_profile_moid]) (\<lambda>_.
            sys_exit 1)))"

section \<open>zone_bridge_client_class.py\<close>

record zone_bridge_client =
  intersight_client :: intersight_client
  mds_client_a :: addr
  mds_client_b :: addr

text \<open>A \<open>for\<close> loop over a list: an exception in the body ends it.\<close>

fun for_each :: "('a \<Rightarrow> unit prog) \<Rightarrow> 'a list \<Rightarrow> unit prog" where
  "for_each f [] = returnE ()"
| "for_each f (x # xs) = bindE (f x) (\<lambda>_. for_each f xs)"

text \<open>\<open>vhba[k]\<close>\<close>

definition vhba_get :: "(string \<times> string) list \<Rightarrow> string \<Rightarrow> string prog" where
  "vhba_get vhba k = liftE (dict_getitem vhba k)"

definition activate_zonesets ::
  "zone_bridge_client \<Rightarrow> string \<Rightarrow> string \<Rightarrow> string \<Rightarrow> string \<Rightarrow> unit prog" where
  "activate_zonesets self zoneset_name_a vsan_id_a zoneset_name_b vsan_id_b =
     bindE (get_self (mds_client_a self)) (\<lambda>ca.
     bindE (logger INFO
        ''Activating zoneset '%s' of vsan `%s` in MDS '%s' (Fabric A)\<newline>''
        [AStr zoneset_name_a, AStr vsan_id_a, AStr (ip_address ca)]) (\<lambda>_.
     bindE (activate_zoneset (mds_client_a self) zoneset_name_a vsan_id_a) (\<lambda>_.
     bindE (get_self (mds_client_b self)) (\<lambda>cb.
     bindE (logger INFO
        ''Activating zoneset '%s' of vsan `%s` in MDS '%s' (Fabric B)\<newline>''
        [AStr zoneset_name_b, AStr vsan_id_b, AStr (ip_address cb)]) (\<lambda>_.
     bindE (activate_zoneset (mds_client_b self) zoneset_name_b vsan_id_b) (\<lambda>_.
     returnE ()))))))"

text \<open>The body of the loop of \<open>add_device_aliases_from_server_profile_name_and_vhba\<close>.\<close>

definition add_device_aliases_body ::
  "zone_bridge_client \<Rightarrow> string \<Rightarrow> (string \<times> string) list \<Rightarrow> unit prog" where
  "add_device_aliases_body self server_profile_name vhba =
     bindE (vhba_get vhba ''vhba_fabric'') (\<lambda>f0.
     bindE (vhba_get vhba ''vhba_name'') (\<lambda>n0.
     let device_alias = server_profile_name @ ''-'' @ f0 @ ''-'' @ n0 in
     bindE (vhba_get vhba ''vhba_fabric'') (\<lambda>f1.
     if f1 = ''A'' then
       bindE (vhba_get vhba ''vhba_wwpn'') (\<lambda>w0.
       bindE (get_self (mds_client_a self)) (\<lambda>ca.
       bindE (logger INFO
          ''Adding device alias '%s' with WWPN '%s' to MDS '%s' (Fabric A)\<newline>''
          [AStr device_alias, AStr w0, AStr (ip_address ca)]) (\<lambda>_.
       bindE (vhba_get vhba ''vhba_wwpn'') (\<lambda>w1.
       bindE (add_device_alias (mds_client_a self) device_alias w1) (\<lambda>_.
       returnE ())))))
     else
       bindE (vhba_get vhba ''vhba_fabric'') (\<lambda>f2.
       if f2 = ''B'' then
         bindE (vhba_get vhba ''vhba_wwpn'') (\<lambda>w0.
         bindE (get_self (mds_client_b self)) (\<lambda>cb.
         bindE (logger INFO
            ''Adding device alias '%s' with WWPN '%s' to MDS '%s' (Fabric B)\<newline>''
            [AStr device_alias, AStr w0, AStr (ip_address cb)]) (\<lambda>_.
         bindE (vhba_get vhba ''vhba_wwpn'') (\<lambda>w1.
         bindE (add_device_alias (mds_client_b self) device_alias w1) (\<lambda>_.
         returnE ())))))
       else
         bindE (vhba_get vhba ''fabric'') (\<lambda>f3.
         bindE (vhba_get vhba ''name'') (\<lambda>n3.
         bindE (logger ERROR (''Unknown fabric type '%s' for vHBA '%s'' @ apos)
            [AStr f3, AStr n3]) (\<lambda>_.
         sys_exit 1)))))))"

definition add_device_aliases_from_server_profile_name_and_vhba ::
  "zone_bridge_client \<Rightarrow> string \<Rightarrow> (string \<times> string) list list \<Rightarrow> unit prog" where
  "add_device_aliases_from_server_profile_name_and_vhba self server_profile_name vhba_list =
     for_each (add_device_aliases_body self server_profile_name) vhba_list"

definition add_zones_to_zonesets ::
  "zone_bridge_client \<Rightarrow> string \<Rightarrow> string \<Rightarrow> string \<Rightarrow> string \<Rightarrow> string \<Rightarrow> string
     \<Rightarrow> unit prog" where
  "add_zones_to_zonesets self zoneset_name_a zone_name_a vsan_id_a
       zoneset_name_b zone_name_b vsan_id_b =
     bindE (get_self (mds_client_a self)) (\<lambda>ca.
     bindE (logger INFO
        ''Adding zone '%s' of vsan `%s` to zoneset '%s' in MDS '%s' (Fabric A)\<newline>''
        [AStr zone_name_a, AStr vsan_id_a, AStr zoneset_name_a, AStr (ip_address ca)]) (\<lambda>_.
     bindE (add_zone_to_zoneset (mds_client_a self) zone_name_a zoneset_name_a vsan_id_a) (\<lambda>_.
     bindE (get_self (mds_client_b self)) (\<lambda>cb.
     bindE (logger INFO
        ''Adding zone '%s' of vsan `%s` to zoneset '%s' in MDS '%s' (Fabric B)\<newline>''
        [AStr zone_name_b, AStr vsan_id_b, AStr zoneset_name_b, AStr (ip_address cb)]) (\<lambda>_.
     bindE (add_zone_to_zoneset (mds_client_b self) zone_name_b zoneset_name_b vsan_id_b) (\<lambda>_.
     returnE ()))))))"

text \<open>
  The body of the loop of \<open>configure_intersight_mds_zones\<close>.  The flag is
  \<open>Some True\<close> for a truthy value, \<open>Some False\<close> for \<open>False\<close> itself, and \<open>None\<close>
  for a value that is falsy without being \<open>False\<close> (the third branch of the source).
  The first half yields \<open>device_alias_name\<close>.
\<close>

definition configure_intersight_mds_zones_body ::
  "zone_bridge_client \<Rightarrow> string \<Rightarrow> string \<Rightarrow> string \<Rightarrow> string \<Rightarrow> string \<Rightarrow> bool option
     \<Rightarrow> (string \<times> string) list \<Rightarrow> unit prog" where
  "configure_intersight_mds_zones_body self server_profile_name zone_name_a vsan_id_a
       zone_name_b vsan_id_b flag_configure_device_aliases vhba =
     bindE
       (if flag_configure_device_aliases = Some True then
          bindE (vhba_get vhba ''vhba_fabric'') (\<lambda>f0.
          bindE (vhba_get vhba ''vhba_name'') (\<lambda>n0.
          let device_alias_name = server_profile_name @ ''-'' @ f0 @ ''-'' @ n0 in
          bindE (vhba_get vhba ''vhba_wwpn'') (\<lambda>w0.
          bindE (vhba_get vhba ''vhba_fabric'') (\<lambda>f1.
          bindE (get_self (if f1 = ''A'' then mds_client_a self else mds_client_b self)) (\<lambda>cx.
          bindE (vhba_get vhba ''vhba_fabric'') (\<lambda>f2.
          bindE (logger INFO
             ''Adding device alias '%s' with WWPN '%s' to MDS '%s' (Fabric %s)\<newline>''
             [AStr device_alias_name, AStr w0, AStr (ip_address cx), AStr f2]) (\<lambda>_.
          bindE (vhba_get vhba ''vhba_fabric'') (\<lambda>f3.
          if f3 = ''A'' then
            bindE (vhba_get vhba ''vhba_wwpn'') (\<lambda>w1.
            bindE (add_device_alias (mds_client_a self) device_alias_name w1) (\<lambda>_.
            returnE (Some device_alias_name)))
          else
            bindE (vhba_get vhba ''vhba_fabric'') (\<lambda>f4.
            if f4 = ''B'' then
              bindE (vhba_get vhba ''vhba_wwpn'') (\<lambda>w1.
              bindE (add_device_alias (mds_client_b self) device_alias_name w1) (\<lambda>_.
              returnE (Some device_alias_name)))
            else
              bindE (vhba_get vhba ''fabric'') (\<lambda>f5.
              bindE (vhba_get vhba ''name'') (\<lambda>n5.
              bindE (logger ERROR (''Unknown fabric type '%s' for vHBA '%s'' @ apos)
                 [AStr f5, AStr n5]) (\<lambda>_.
              sys_exit 1))))))))))))
        else if flag_configure_device_aliases = Some False then
          bindE (vhba_get vhba ''vhba_name'') (\<lambda>n0.
          bindE (vhba_get vhba ''vhba_wwpn'') (\<lambda>w0.
          bindE (logger INFO
             ''Skipping device alias creation for vHBA '%s' with WWPN '%s'\<newline>''
             [AStr n0, AStr w0]) (\<lambda>_.
          bindE (vhba_get vhba ''vhba_wwpn'') (\<lambda>w1.
          bindE (vhba_get vhba ''vhba_name'') (\<lambda>n1.
          bindE (logger INFO
             ''Using WWPN '%s' directly for vHBA '%s' to configue zone member\<newline>''
             [AStr w1, AStr n1]) (\<lambda>_.
          returnE None))))))
        else
          bindE (logger ERROR ''Unknown flag value '%s' for device alias configuration''
             [ANone]) (\<lambda>_.
          sys_exit 1))
       (\<lambda>device_alias_name.
     bindE (vhba_get vhba ''vhba_fabric'') (\<lambda>f6.
     if f6 = ''A'' then
       bindE (vhba_get vhba ''vhba_wwpn'') (\<lambda>w2.
       bindE (get_self (mds_client_a self)) (\<lambda>ca.
       bindE (logger INFO
          ''Adding vHBA '%s' to zone '%s' in vsan '%s' of MDS '%s' (Fabric A)\<newline>''
          [AStr w2, AStr zone_name_a, AStr vsan_id_a, AStr (ip_address ca)]) (\<lambda>_.
       bindE (vhba_get vhba ''vhba_wwpn'') (\<lambda>w3.
       bindE (configure_zone_and_add_member (mds_client_a self) zone_name_a vsan_id_a
                (Some w3) device_alias_name) (\<lambda>_.
       returnE ())))))
     else
       bindE (vhba_get vhba ''vhba_fabric'') (\<lambda>f7.
       if f7 = ''B'' then
         bindE (vhba_get vhba ''vhba_wwpn'') (\<lambda>w2.
         bindE (get_self (mds_client_b self)) (\<lambda>cb.
         bindE (logger INFO
            ''Adding vHBA '%s' to zone '%s' in vsan '%s' of MDS '%s' (Fabric B)\<newline>''
            [AStr w2, AStr zone_name_b, AStr vsan_id_b, AStr (ip_address cb)]) (\<lambda>_.
         bindE (vhba_get vhba ''vhba_wwpn'') (\<lambda>w3.
         bindE (configure_zone_and_add_member (mds_client_b self) zone_name_b vsan_id_b
                  (Some w3) device_alias_name) (\<lambda>_.
         returnE ())))))
       else
         bindE (vhba_get vhba ''fabric'') (\<lambda>f8.
         bindE (vhba_get vhba ''name'') (\<lambda>n8.
         bindE (logger ERROR (''Unknown fabric type '%s' for vHBA '%s'' @ apos)
            [AStr f8, AStr n8]) (\<lambda>_.
         sys_exit 1))))))"

text \<open>The two stages that follow the loop in \<open>configure_intersight_mds_zones\<close>.\<close>

definition configure_intersight_mds_zones_add ::
  "zone_bridge_client \<Rightarrow> string \<Rightarrow> string \<Rightarrow> string \<Rightarrow> string \<Rightarrow> string option
     \<Rightarrow> string option \<Rightarrow> bool \<Rightarrow> unit prog" where
  "configure_intersight_mds_zones_add self zone_name_a vsan_id_a zone_name_b vsan_id_b
       zoneset_name_a zoneset_name_b flag_add_zones_to_zonesets =
     (if flag_add_zones_to_zonesets then
        bindE (logger INFO ''Adding zones to zonesets in MDS\<newline>'' []) (\<lambda>_.
        if zoneset_name_a = None \<or> zoneset_name_b = None then
          bindE (logger ERROR
             ''Zoneset names are required to add zones to zonesets in MDS\<newline>'' []) (\<lambda>_.
          sys_exit 1)
        else
          bindE (get_self (mds_client_a self)) (\<lambda>ca.
          bindE (logger INFO
             ''Adding zone '%s' of vsan `%s` to zoneset '%s' in MDS '%s' (Fabric A)\<newline>''
             [AStr zone_name_a, AStr vsan_id_a, AStr (the zoneset_name_a),
              AStr (ip_address ca)]) (\<lambda>_.
          bindE (add_zone_to_zoneset (mds_client_a self) zone_name_a (the zoneset_name_a)
                   vsan_id_a) (\<lambda>_.
          bindE (get_self (mds_client_b self)) (\<lambda>cb.
          bindE (logger INFO
             ''Adding zone '%s' of vsan `%s` to zoneset '%s' in MDS '%s' (Fabric B)\<newline>''
             [AStr zone_name_b, AStr vsan_id_b, AStr (the zoneset_name_b),
              AStr (ip_address cb)]) (\<lambda>_.
          bindE (add_zone_to_zoneset (mds_client_b self) zone_name_b (the zoneset_name_b)
                   vsan_id_b) (\<lambda>_.
          returnE ())))))))
      else
        logger INFO ''Skipping adding zones to zonesets in MDS\<newline>'' [])"

definition configure_intersight_mds_zones_activate ::
  "zone_bridge_client \<Rightarrow> string \<Rightarrow> string \<Rightarrow> string option \<Rightarrow> string option \<Rightarrow> bool
     \<Rightarrow> unit prog" where
  "configure_intersight_mds_zones_activate self vsan_id_a vsan_id_b
       zoneset_name_a zoneset_name_b flag_activate_zonesets =
     (if flag_activate_zonesets then
        if zoneset_name_a = None \<or> zoneset_name_b = None then
          bindE (logger ERROR
             ''Zoneset names are required to add zones to zonesets in MDS\<newline>'' []) (\<lambda>_.
          sys_exit 1)
        else
          bindE (logger INFO ''Activating zonesets in MDS\<newline>'' []) (\<lambda>_.
          bindE (get_self (mds_client_a self)) (\<lambda>ca.
          bindE (logger INFO
             ''Activating zoneset '%s' of vsan `%s` in MDS '%s' (Fabric A)\<newline>''
             [AStr (the zoneset_name_a), AStr vsan_id_a, AStr (ip_address ca)]) (\<lambda>_.
          bindE (activate_zoneset (mds_client_a self) (the zoneset_name_a) vsan_id_a) (\<lambda>_.
          bindE (get_self (mds_client_b self)) (\<lambda>cb.
          bindE (logger INFO
             ''Activating zoneset '%s' of vsan `%s` in MDS '%s' (Fabric B)\<newline>''
             [AStr (the zoneset_name_b), AStr vsan_id_b, AStr (ip_address cb)]) (\<lambda>_.
          bindE (activate_zoneset (mds_client_b self) (the zoneset_name_b) vsan_id_b) (\<lambda>_.
          returnE ())))))))
      else
        logger INFO ''Skipping activating zonesets in MDS\<newline>'' [])"

definition configure_intersight_mds_zones ::
  "zone_bridge_client \<Rightarrow> string \<Rightarrow> string \<Rightarrow> string \<Rightarrow> string \<Rightarrow> string \<Rightarrow> string
     \<Rightarrow> string option \<Rightarrow> string option \<Rightarrow> bool option \<Rightarrow> bool \<Rightarrow> bool \<Rightarrow> unit prog" where
  "configure_intersight_mds_zones self server_profile_name organization_name
       zone_name_a vsan_id_a zone_name_b vsan_id_b zoneset_name_a zoneset_name_b
       flag_configure_device_aliases flag_add_zones_to_zonesets flag_activate_zonesets =
     bindE (fetch_organization_moid_from_organization_name (intersight_client self)
              organization_name) (\<lambda>organization_moid.
     bindE (fetch_server_profile_moid_from_server_profile_name_and_organization_moid
              (intersight_client self) server_profile_name organization_moid) (\<lambda>server_profile.
     bindE (fetch_vhba_from_server_profile_moid (intersight_client self) server_profile)
       (\<lambda>vhbas_list.
     bindE (for_each (configure_intersight_mds_zones_body self server_profile_name
              zone_name_a vsan_id_a zone_name_b vsan_id_b flag_configure_device_aliases)
              vhbas_list) (\<lambda>_.
     bindE (configure_intersight_mds_zones_add self zone_name_a vsan_id_a zone_name_b
              vsan_id_b zoneset_name_a zoneset_name_b flag_add_zones_to_zonesets) (\<lambda>_.
     configure_intersight_mds_zones_activate self vsan_id_a vsan_id_b
       zoneset_name_a zoneset_name_b flag_activate_zonesets)))))"

section \<open>Observing a run\<close>

text \<open>The requests among a list of events, in order.\<close>

fun posts_of :: "event list \<Rightarrow> http_request list" where
  "posts_of [] = []"
| "posts_of (Post r # es) = r # posts_of es"
| "posts_of (Log l f a # es) = posts_of es"

text \<open>What running \<open>m\<close> from \<open>s\<close> adds to the trace, and the requests in it.\<close>

definition emitted :: "'a prog \<Rightarrow> state \<Rightarrow> event list" where
  "emitted m s = drop (length (trace s)) (trace (snd (m s)))"

definition posted :: "'a prog \<Rightarrow> state \<Rightarrow> http_request list" where
  "posted m s = posts_of (emitted m s)"

text \<open>
  The request \<open>post_request\<close> sends for a client in state \<open>c\<close>: the stored payload
  with \<open>input\<close> and \<open>type\<close> overwritten, to the client's URL with its credentials.
\<close>

definition mds_request :: "mds_client \<Rightarrow> string \<Rightarrow> string \<Rightarrow> http_request" where
  "mds_request c request_type request_input =
     \<lparr>url = api_url c,
      data = (api_payload c)\<lparr>ins_api :=
        (ins_api (api_payload c))\<lparr>input := request_input, type := request_type\<rparr>\<rparr>,
      headers = api_headers c, auth = (username c, password c),
      timeout = api_timeout c, verify = api_verify c\<rparr>"

text \<open>The same for a configuration command of the client stored at \<open>a\<close>.\<close>

definition config_request :: "state \<Rightarrow> addr \<Rightarrow> string \<Rightarrow> http_request" where
  "config_request s a command = mds_request (heap s a) (api_type_config (heap s a)) command"

text \<open>The state in which \<open>post_request\<close> calls \<open>requests.post\<close>.\<close>

definition sent_state :: "addr \<Rightarrow> string \<Rightarrow> string \<Rightarrow> state \<Rightarrow> state" where
  "sent_state self request_input request_type s =
     (let c = (heap s self)\<lparr>api_payload := (api_payload (heap s self))\<lparr>ins_api :=
            (ins_api (api_payload (heap s self)))\<lparr>input := request_input, type := request_type\<rparr>\<rparr>\<rparr>
      in s\<lparr>heap := (heap s)(self := c),
           trace := trace s @
             [Log INFO ''Sending POST request to MDS switch of type '%s' with input '%s'.\<newline>''
                [AStr request_type, AStr request_input],
              Log DEBUG
                ''POST Request Details:\<newline>Payload: %s\<newline>Headers: %s\<newline>URL: %s\<newline>Timeout: %s\<newline>Verify SSL: %s\<newline>''
                [APayload (api_payload c), ADict (api_headers c), AStr (api_url c),
                 AInt (api_timeout c), ABool (api_verify c)]]\<rparr>)"

text \<open>What comes back for the request \<open>post_request\<close> sends from \<open>s\<close>.\<close>

definition post_outcome :: "addr \<Rightarrow> string \<Rightarrow> string \<Rightarrow> state \<Rightarrow> http_outcome" where
  "post_outcome self request_input request_type s =
     network s (trace (sent_state self request_input request_type s))
       (mds_request (heap s self) request_type request_input)"

text \<open>What follows the POST in \<open>post_request\<close>, for the client \<open>c\<close> as it then is.\<close>

definition after_reply :: "mds_client \<Rightarrow> string \<Rightarrow> string \<Rightarrow> response \<Rightarrow> response prog" where
  "after_reply c request_input request_type response =
     bindE (if status_code response = 200 then
          bindE (logger INFO
             ''POST request of type '%s' with input '%s' to MDS `%s`was successful.\<newline>''
             [AStr (ip_address c), AStr request_type, AStr request_input]) (\<lambda>_.
          bindE (response_json response) (\<lambda>j.
          logger DEBUG
             ''Response Details from MDS `%s`:\<newline>Status Code: %s\<newline>Content: %s\<newline>''
             [AStr (ip_address c), AInt (status_code response), AJson j]))
        else
          bindE (response_json response) (\<lambda>j.
          bindE (logger ERROR
             ''POST request failed with status code: '%s' and response content: '%s'.\<newline>''
             [AInt (status_code response), AJson j]) (\<lambda>_.
          sys_exit 1))) (\<lambda>_.
     bindE (response_json response) (\<lambda>j.
     bindE (liftE (getitem j ''ins_api'')) (\<lambda>j1.
     bindE (liftE (getitem j1 ''outputs'')) (\<lambda>j2.
     bindE (liftE (getitem j2 ''output'')) (\<lambda>output.
     bindE (liftE (contains ''code'' output)) (\<lambda>has_code.
     bindE (if has_code then
          bindE (liftE (getitem output ''code'')) (\<lambda>code.
          if code \<noteq> JStr ''200'' then
            logger ERROR
              ''CLI command pushed to MDS `%s` generated the following error:%s\<newline>''
              [AStr (ip_address c), AJson output]
          else returnE ())
        else returnE ()) (\<lambda>_.
     returnE response)))))))"

text \<open>
  A client with the two fields \<open>post_request\<close> writes blanked: what of a client a
  request cannot change.
\<close>

definition blank :: "mds_client \<Rightarrow> mds_client" where
  "blank c = c\<lparr>api_payload :=
     (api_payload c)\<lparr>ins_api := (ins_api (api_payload c))\<lparr>input := [], type := []\<rparr>\<rparr>\<rparr>"

definition cfg :: "state \<Rightarrow> addr \<Rightarrow> mds_client" where
  "cfg s a = blank (heap s a)"

text \<open>
  \<open>sends_at m s X\<close>: run from \<open>s\<close>, \<open>m\<close> leaves the network and the clients'
  configuration alone, posts an initial segment of \<open>X\<close>, and all of \<open>X\<close> if it returns.
  \<open>sends\<close> is the same from every state, \<open>X\<close> given from the configuration.
  \<open>logs_only m\<close>: \<open>m\<close> changes nothing but the trace, and posts nothing.
\<close>

definition sends_at :: "'a prog \<Rightarrow> state \<Rightarrow> http_request list \<Rightarrow> bool" where
  "sends_at m s X = (case m s of (r, s') \<Rightarrow>
     network s' = network s \<and> cfg s' = cfg s \<and>
     (\<exists>evs. trace s' = trace s @ evs \<and> prefix (posts_of evs) X \<and>
        (\<not> isl r \<longrightarrow> posts_of evs = X)))"

definition sends :: "'a prog \<Rightarrow> ((addr \<Rightarrow> mds_client) \<Rightarrow> http_request list) \<Rightarrow> bool" where
  "sends m X = (\<forall>s. sends_at m s (X (cfg s)))"

definition logs_only :: "'a prog \<Rightarrow> bool" where
  "logs_only m = (\<forall>s. \<exists>logs. snd (m s) = s\<lparr>trace := trace s @ logs\<rparr> \<and> posts_of logs = [])"

definition fails :: "'a prog \<Rightarrow> bool" where
  "fails m = (\<forall>s. isl (fst (m s)))"

section \<open>What a run is expected to send\<close>

text \<open>
  The command texts of one adapter for a given zone and VSAN: with the flag set, alias
  creation and membership by alias; with it \<open>False\<close>, membership by WWPN (none when
  the WWPN is empty); nothing otherwise.
\<close>

definition adapter_commands ::
  "string \<Rightarrow> string \<Rightarrow> string \<Rightarrow> bool option \<Rightarrow> vnic_fc_if \<Rightarrow> string list" where
  "adapter_commands server_profile_name zone_name vsan_id flag v =
     (let alias = server_profile_name @ ''-'' @ placement_switch_id v @ ''-'' @ vnic_name v in
      if flag = Some True then
        [''device-alias database ;device-alias name '' @ alias @ '' pwwn '' @ vnic_wwpn v
           @ '' ;device-alias commit'',
         ''zone name '' @ zone_name @ '' vsan '' @ vsan_id @ '' ;member device-alias '' @ alias]
      else if flag = Some False \<and> vnic_wwpn v \<noteq> [] then
        [''zone name '' @ zone_name @ '' vsan '' @ vsan_id @ '' ;member pwwn '' @ vnic_wwpn v]
      else [])"

text \<open>
  The requests of one adapter: on the client of its fabric tag, with that fabric's zone
  and VSAN.  \<open>rq a command\<close> is the request the client at \<open>a\<close> sends for \<open>command\<close>.
\<close>

definition adapter_requests ::
  "zone_bridge_client \<Rightarrow> string \<Rightarrow> string \<Rightarrow> string \<Rightarrow> string \<Rightarrow> string \<Rightarrow> bool option
     \<Rightarrow> (addr \<Rightarrow> string \<Rightarrow> http_request) \<Rightarrow> vnic_fc_if \<Rightarrow> http_request list" where
  "adapter_requests self server_profile_name zone_name_a vsan_id_a zone_name_b vsan_id_b flag rq v =
     (if placement_switch_id v = ''A'' then
        map (rq (mds_client_a self))
          (adapter_commands server_profile_name zone_name_a vsan_id_a flag v)
      else if placement_switch_id v = ''B'' then
        map (rq (mds_client_b self))
          (adapter_commands server_profile_name zone_name_b vsan_id_b flag v)
      else [])"

text \<open>The requests of the two zoneset stages, fabric A before fabric B in each.\<close>

definition add_requests ::
  "zone_bridge_client \<Rightarrow> string \<Rightarrow> string \<Rightarrow> string \<Rightarrow> string \<Rightarrow> string \<Rightarrow> string
     \<Rightarrow> (addr \<Rightarrow> string \<Rightarrow> http_request) \<Rightarrow> http_request list" where
  "add_requests self zoneset_name_a zone_name_a vsan_id_a zoneset_name_b zone_name_b vsan_id_b rq =
     [rq (mds_client_a self)
        (''zoneset name '' @ zoneset_name_a @ '' vsan '' @ vsan_id_a @ '' ;member '' @ zone_name_a),
      rq (mds_client_b self)
        (''zoneset name '' @ zoneset_name_b @ '' vsan '' @ vsan_id_b @ '' ;member '' @ zone_name_b)]"

definition activate_requests ::
  "zone_bridge_client \<Rightarrow> string \<Rightarrow> string \<Rightarrow> string \<Rightarrow> string
     \<Rightarrow> (addr \<Rightarrow> string \<Rightarrow> http_request) \<Rightarrow> http_request list" where
  "activate_requests self zoneset_name_a vsan_id_a zoneset_name_b vsan_id_b rq =
     [rq (mds_client_a self)
        (''zoneset activate name '' @ zoneset_name_a @ '' vsan '' @ vsan_id_a),
      rq (mds_client_b self)
        (''zoneset activate name '' @ zoneset_name_b @ '' vsan '' @ vsan_id_b)]"

text \<open>Both stages as the full workflow runs them: nothing when a zoneset name is unset.\<close>

definition zoneset_requests ::
  "zone_bridge_client \<Rightarrow> string \<Rightarrow> string \<Rightarrow> string \<Rightarrow> string \<Rightarrow> string option
     \<Rightarrow> string option \<Rightarrow> bool \<Rightarrow> bool \<Rightarrow> (addr \<Rightarrow> string \<Rightarrow> http_request)
     \<Rightarrow> http_request list" where
  "zoneset_requests self zone_name_a vsan_id_a zone_name_b vsan_id_b zoneset_name_a
       zoneset_name_b flag_add_zones_to_zonesets flag_activate_zonesets rq =
     (if zoneset_name_a = None \<or> zoneset_name_b = None then []
      else
        (if flag_add_zones_to_zonesets then
           add_requests self (the zoneset_name_a) zone_name_a vsan_id_a
             (the zoneset_name_b) zone_name_b vsan_id_b rq
         else []) @
        (if flag_activate_zonesets then
           activate_requests self (the zoneset_name_a) vsan_id_a (the zoneset_name_b) vsan_id_b rq
         else []))"

text \<open>The request builder of a configuration: \<open>config_request\<close>, from what cannot change.\<close>

definition cfg_request :: "(addr \<Rightarrow> mds_client) \<Rightarrow> addr \<Rightarrow> string \<Rightarrow> http_request" where
  "cfg_request c a command = mds_request (c a) (api_type_config (c a)) command"

text \<open>
  The adapters the three lookups of \<open>configure_intersight_mds_zones\<close> end with; none
  when a lookup raises or finds nothing.
\<close>

definition fetched_vnics :: "intersight_client \<Rightarrow> string \<Rightarrow> string \<Rightarrow> vnic_fc_if list" where
  "fetched_vnics ic server_profile_name organization_name =
     (case get_organization_organization_list ic
             (''Name eq '' @ apos @ organization_name @ apos) of
        Results (organization_moid # _) \<Rightarrow>
          (case get_server_profile_list ic
                  (''Name eq '' @ apos @ server_profile_name @ apos
                     @ '' and Organization.Moid eq '' @ apos @ organization_moid @ apos) of
             Results (server_profile_moid # _) \<Rightarrow>
               (case get_vnic_fc_if_list ic
                       (''Profile.Moid eq '' @ apos @ server_profile_moid @ apos) of
                  Results vnics \<Rightarrow> vnics
                | ApiException \<Rightarrow> [])
           | _ \<Rightarrow> [])
      | _ \<Rightarrow> [])"

section \<open>Concrete clients, switches and inventories\<close>

text \<open>The object \<open>MdsClient(ip, "admin", "secret")\<close> is, once built.\<close>

definition built_client :: "string \<Rightarrow> mds_client" where
  "built_client ip =
     \<lparr>ip_address = ip, username = ''admin'', password = ''secret'',
      api_headers = [(''Content-Type'', ''application/json''), (''Accept'', ''application/json'')],
      api_payload = \<lparr>ins_api =
        \<lparr>version = ''1.0'', type = '''', chunk = ''0'', sid = ''1'', input = '''',
         output_format = ''json''\<rparr>\<rparr>,
      api_timeout = 10, api_type_config = ''cli_conf'', api_type_show = ''cli_show'',
      api_url = ''https://'' @ ip @ '':8443/ins'', api_verify = False\<rparr>"

text \<open>A response body whose output section carries the given items.\<close>

definition body_with :: "(string \<times> json) list \<Rightarrow> json" where
  "body_with d = JObj [(''ins_api'', JObj [(''outputs'', JObj [(''output'', JObj d)])])]"

text \<open>
  Two clients at addresses 0 and 1, nothing logged yet, and switches that answer every
  request alike.
\<close>

definition lab_state :: "http_outcome \<Rightarrow> state" where
  "lab_state reply =
     \<lparr>heap = (\<lambda>a. if a = 0 then built_client ''10.0.0.1'' else built_client ''10.0.0.2''),
      trace = [],
      network = (\<lambda>_ _. reply)\<rparr>"

definition ok_response :: response where
  "ok_response = \<lparr>status_code = 200,
     body = Some (body_with [(''code'', JStr ''200''), (''msg'', JStr ''Success'')])\<rparr>"

definition lab_ok :: http_outcome where
  "lab_ok = Reply \<lparr>status_code = 200,
     body = Some (body_with [(''code'', JStr ''200''), (''msg'', JStr ''Success'')])\<rparr>"

text \<open>An inventory that finds the organization and the profile, with the given vHBAs.\<close>

definition lab_bridge :: "vnic_fc_if list \<Rightarrow> zone_bridge_client" where
  "lab_bridge vnics =
     \<lparr>intersight_client =
        \<lparr>get_organization_organization_list = (\<lambda>_. Results [''org-1'']),
         get_server_profile_list = (\<lambda>_. Results [''profile-1'']),
         get_vnic_fc_if_list = (\<lambda>_. Results vnics)\<rparr>,
      mds_client_a = 0, mds_client_b = 1\<rparr>"

definition lab_vnics :: "vnic_fc_if list" where
  "lab_vnics =
     [\<lparr>vnic_wwpn = ''20:00:00:00:00:00:00:01'', vnic_name = ''vHBA0'',
       placement_switch_id = ''A''\<rparr>,
      \<lparr>vnic_wwpn = ''20:00:00:00:00:00:00:02'', vnic_name = ''vHBA1'',
       placement_switch_id = ''B''\<rparr>]"

text \<open>\<open>response.json()["ins_api"]["outputs"]["output"]\<close>, on the parsed body.\<close>

definition output_section :: "json \<Rightarrow> py_error + json" where
  "output_section j =
     (case getitem j ''ins_api'' of Inl e \<Rightarrow> Inl e | Inr j1 \<Rightarrow>
      (case getitem j1 ''outputs'' of Inl e \<Rightarrow> Inl e | Inr j2 \<Rightarrow> getitem j2 ''output''))"

text \<open>\<open>never_exits m\<close>: \<open>m\<close> does not end in \<open>sys.exit\<close>.\<close>

definition never_exits :: "'a prog \<Rightarrow> bool" where
  "never_exits m = (\<forall>s n. fst (m s) \<noteq> Inl (SystemExit n))"

text \<open>A switch that accepts the request and reports a command error; one that answers 201.\<close>

definition lab_failed :: http_outcome where
  "lab_failed = Reply \<lparr>status_code = 200,
     body = Some (body_with [(''code'', JStr ''400''), (''msg'', JStr ''Syntax error'')])\<rparr>"

definition lab_created :: http_outcome where
  "lab_created = Reply \<lparr>status_code = 201,
     body = Some (body_with [(''code'', JStr ''200''), (''msg'', JStr ''Success'')])\<rparr>"

text \<open>
  Two switches that report a command error: one answers 201; one answers 200 with a list
  as output section, one entry per statement of the command.
\<close>

definition lab_created_failed :: http_outcome where
  "lab_created_failed = Reply \<lparr>status_code = 201,
     body = Some (body_with [(''code'', JStr ''400''), (''msg'', JStr ''Syntax error'')])\<rparr>"

definition lab_listed_failed :: http_outcome where
  "lab_listed_failed = Reply \<lparr>status_code = 200,
     body = Some (JObj [(''ins_api'', JObj [(''outputs'', JObj [(''output'',
       JList [JObj [(''code'', JStr ''200''), (''msg'', JStr ''Success'')],
              JObj [(''code'', JStr ''400''), (''msg'', JStr ''Syntax error'')]])])])])\<rparr>"

text \<open>A vHBA whose placement carries no fabric: Intersight's switch id \<open>None\<close>.\<close>

definition lab_unplaced :: vnic_fc_if where
  "lab_unplaced =
     \<lparr>vnic_wwpn = ''20:00:00:00:00:00:00:03'', vnic_name = ''vHBA2'',
      placement_switch_id = ''None''\<rparr>"

text \<open>The two placed vHBAs with the unplaced one between them.\<close>

definition lab_mixed :: "vnic_fc_if list" where
  "lab_mixed =
     [\<lparr>vnic_wwpn = ''20:00:00:00:00:00:00:01'', vnic_name = ''vHBA0'',
       placement_switch_id = ''A''\<rparr>,
      \<lparr>vnic_wwpn = ''20:00:00:00:00:00:00:03'', vnic_name = ''vHBA2'',
       placement_switch_id = ''None''\<rparr>,
      \<lparr>vnic_wwpn = ''20:00:00:00:00:00:00:02'', vnic_name = ''vHBA1'',
       placement_switch_id = ''B''\<rparr>]"

text \<open>Whether an event is a call of \<open>logger.error\<close>.\<close>

fun is_error_log :: "event \<Rightarrow> bool" where
  "is_error_log (Log lvl fmt args) = (lvl = ERROR)"
| "is_error_log (Post r) = False"

section \<open>Reasoning about runs\<close>

subsection \<open>Sequencing\<close>

lemma posts_of_append: "posts_of (xs @ ys) = posts_of xs @ posts_of ys"
  by (induction xs rule: posts_of.induct) auto

lemma bindE_returnE: "bindE (returnE x) f = f x"
  by (simp add: bindE_def returnE_def)

lemma bindE_raise: "bindE (raise e) f = raise e"
  by (simp add: bindE_def raise_def)

lemma bindE_sys_exit: "bindE (sys_exit n) f = sys_exit n"
  by (simp add: sys_exit_def bindE_raise)

lemma bindE_logger:
  "bindE (logger l fmt args) f s = f () (s\<lparr>trace := trace s @ [Log l fmt args]\<rparr>)"
  by (simp add: bindE_def logger_def)

lemma bindE_get_self: "bindE (get_self a) f s = f (heap s a) s"
  by (simp add: bindE_def get_self_def)

lemma bindE_set_self: "bindE (set_self a c) f s = f () (s\<lparr>heap := (heap s)(a := c)\<rparr>)"
  by (simp add: bindE_def set_self_def)

lemma bindE_requests_post:
  "bindE (requests_post req) f s =
     (case network s (trace s) req of
        NoResponse \<Rightarrow> (Inl RequestException, s\<lparr>trace := trace s @ [Post req]\<rparr>)
      | Reply r \<Rightarrow> f r (s\<lparr>trace := trace s @ [Post req]\<rparr>))"
  by (simp add: bindE_def requests_post_def split: http_outcome.splits)

subsection \<open>What a step posts\<close>

lemma sends_at_returnE: "sends_at (returnE x) s []"
  by (simp add: sends_at_def returnE_def)

lemma sends_at_raise: "sends_at (raise e) s []"
  by (simp add: sends_at_def raise_def)

lemma sends_at_sys_exit: "sends_at (sys_exit n) s []"
  by (simp add: sys_exit_def sends_at_raise)

lemma sends_at_liftE: "sends_at (liftE r) s []"
  by (cases r) (simp_all add: liftE_def sends_at_raise sends_at_returnE)

lemma cfg_trace_update: "cfg (s\<lparr>trace := t\<rparr>) = cfg s"
  by (rule ext) (simp add: cfg_def)

lemma sends_at_logger: "sends_at (logger l fmt args) s []"
  by (simp add: sends_at_def logger_def cfg_trace_update)

lemma sends_at_get_self: "sends_at (get_self a) s []"
  by (simp add: sends_at_def get_self_def)

lemma sends_at_response_json: "sends_at (response_json r) s []"
  by (cases "body r") (simp_all add: response_json_def sends_at_raise sends_at_returnE)

lemma sends_at_bindE:
  assumes m: "sends_at m s X"
    and f: "\<And>x s1. m s = (Inr x, s1) \<Longrightarrow> network s1 = network s \<Longrightarrow> cfg s1 = cfg s
              \<Longrightarrow> sends_at (f x) s1 Y"
  shows "sends_at (bindE m f) s (X @ Y)"
proof (cases "m s")
  case (Pair r s1)
  from m Pair obtain evs where s1: "network s1 = network s" "cfg s1 = cfg s"
      "trace s1 = trace s @ evs" "prefix (posts_of evs) X"
      "\<not> isl r \<longrightarrow> posts_of evs = X"
    by (auto simp: sends_at_def)
  show ?thesis
  proof (cases r)
    case (Inl e)
    with Pair s1 show ?thesis
      by (auto simp: sends_at_def bindE_def intro: prefix_prefix)
  next
    case (Inr x)
    with Pair have "m s = (Inr x, s1)" by simp
    from f[OF this s1(1,2)] obtain r2 s2 evs2 where 2: "f x s1 = (r2, s2)"
        "network s2 = network s1" "cfg s2 = cfg s1" "trace s2 = trace s1 @ evs2"
        "prefix (posts_of evs2) Y" "\<not> isl r2 \<longrightarrow> posts_of evs2 = Y"
      by (cases "f x s1") (auto simp: sends_at_def)
    from Inr s1 have X: "posts_of evs = X" by simp
    show ?thesis
      using Pair Inr 2 s1 X
      by (auto simp: sends_at_def bindE_def posts_of_append)
  qed
qed

lemma sends_at_bindE_quiet:
  assumes "sends_at m s []"
    and "\<And>x s1. m s = (Inr x, s1) \<Longrightarrow> network s1 = network s \<Longrightarrow> cfg s1 = cfg s
              \<Longrightarrow> sends_at (f x) s1 Y"
  shows "sends_at (bindE m f) s Y"
  using sends_at_bindE[OF assms] by simp

lemma sends_at_if:
  "(b \<Longrightarrow> sends_at m s X) \<Longrightarrow> (\<not> b \<Longrightarrow> sends_at n s X) \<Longrightarrow> sends_at (if b then m else n) s X"
  by simp

lemmas quiet_intros =
  sends_at_returnE sends_at_raise sends_at_sys_exit sends_at_liftE sends_at_logger
  sends_at_get_self sends_at_response_json

subsection \<open>The request of \<open>post_request\<close>\<close>

lemma mds_request_blank: "mds_request (blank c) t i = mds_request c t i"
  by (simp add: mds_request_def blank_def)

lemma mds_request_cfg: "mds_request (heap s a) t i = mds_request (cfg s a) t i"
  by (simp add: cfg_def mds_request_blank)

lemma sends_at_after_reply: "sends_at (after_reply c i t r) s []"
  unfolding after_reply_def
  by (intro sends_at_bindE_quiet sends_at_if quiet_intros)

lemma post_request_unfold:
  "post_request self i t s =
     (let s1 = sent_state self i t s; c = heap s1 self;
          req = mds_request (heap s self) t i;
          s2 = s1\<lparr>trace := trace s1 @ [Post req]\<rparr>
      in case network s (trace s1) req of
           NoResponse \<Rightarrow> (Inl RequestException, s2)
         | Reply r \<Rightarrow> after_reply c i t r s2)"
  unfolding post_request_def after_reply_def sent_state_def mds_request_def
  by (simp add: bindE_get_self bindE_set_self bindE_logger bindE_requests_post Let_def
        split: http_outcome.splits cong: if_cong)

lemma cfg_sent_state: "cfg (sent_state self i t s) = cfg s"
  by (rule ext) (simp add: cfg_def sent_state_def blank_def Let_def)

lemma network_sent_state: "network (sent_state self i t s) = network s"
  by (simp add: sent_state_def Let_def)

lemma trace_sent_state: "\<exists>logs. trace (sent_state self i t s) = trace s @ logs \<and> posts_of logs = []"
  by (simp add: sent_state_def Let_def)

lemma sends_at_post_request:
  "sends_at (post_request self i t) s [mds_request (cfg s self) t i]"
proof -
  obtain logs where logs: "trace (sent_state self i t s) = trace s @ logs" "posts_of logs = []"
    using trace_sent_state by blast
  define s1 where "s1 = sent_state self i t s"
  define req where "req = mds_request (heap s self) t i"
  define s2 where "s2 = s1\<lparr>trace := trace s1 @ [Post req]\<rparr>"
  have s2: "network s2 = network s" "cfg s2 = cfg s" "trace s2 = trace s @ (logs @ [Post req])"
    by (simp_all add: s2_def s1_def network_sent_state cfg_trace_update cfg_sent_state logs)
  have req: "mds_request (cfg s self) t i = req"
    by (simp add: req_def mds_request_cfg)
  show ?thesis
  proof (cases "network s (trace s1) req")
    case NoResponse
    then have "post_request self i t s = (Inl RequestException, s2)"
      by (simp add: post_request_unfold Let_def s1_def req_def s2_def)
    then show ?thesis
      using s2 logs by (simp add: sends_at_def req posts_of_append)
  next
    case (Reply r)
    then have eq: "post_request self i t s = after_reply (heap s1 self) i t r s2"
      by (simp add: post_request_unfold Let_def s1_def req_def s2_def)
    obtain r' s' where rs: "after_reply (heap s1 self) i t r s2 = (r', s')"
      by (cases "after_reply (heap s1 self) i t r s2")
    with sends_at_after_reply[of "heap s1 self" i t r s2]
    obtain evs where "network s' = network s2" "cfg s' = cfg s2"
        "trace s' = trace s2 @ evs" "posts_of evs = []"
      by (auto simp: sends_at_def)
    then show ?thesis
      using s2 logs eq rs by (simp add: sends_at_def req posts_of_append)
  qed
qed

subsection \<open>Posting, from every state\<close>

lemma sends_quiet:
  "sends (returnE x) (\<lambda>_. [])" "sends (raise e) (\<lambda>_. [])" "sends (sys_exit n) (\<lambda>_. [])"
  "sends (liftE r) (\<lambda>_. [])" "sends (logger l fmt args) (\<lambda>_. [])"
  "sends (get_self a) (\<lambda>_. [])" "sends (response_json rsp) (\<lambda>_. [])"
  by (simp_all add: sends_def quiet_intros)

lemma sends_bindE:
  assumes "sends m X" and "\<And>x. sends (f x) Y"
  shows "sends (bindE m f) (\<lambda>c. X c @ Y c)"
  unfolding sends_def
proof
  fix s
  show "sends_at (bindE m f) s (X (cfg s) @ Y (cfg s))"
  proof (rule sends_at_bindE)
    show "sends_at m s (X (cfg s))" using assms(1) by (simp add: sends_def)
  next
    fix x s1 assume c: "cfg s1 = cfg s"
    from assms(2)[of x] have "sends_at (f x) s1 (Y (cfg s1))" by (simp add: sends_def)
    with c show "sends_at (f x) s1 (Y (cfg s))" by simp
  qed
qed

lemma sends_bindE_res:
  assumes "sends m X" and "\<And>s x s1. m s = (Inr x, s1) \<Longrightarrow> P x"
    and "\<And>x. P x \<Longrightarrow> sends (f x) Y"
  shows "sends (bindE m f) (\<lambda>c. X c @ Y c)"
  unfolding sends_def
proof
  fix s
  show "sends_at (bindE m f) s (X (cfg s) @ Y (cfg s))"
  proof (rule sends_at_bindE)
    show "sends_at m s (X (cfg s))" using assms(1) by (simp add: sends_def)
  next
    fix x s1 assume c: "cfg s1 = cfg s" and r: "m s = (Inr x, s1)"
    from r have "P x" by (rule assms(2))
    then have "sends (f x) Y" by (rule assms(3))
    then have "sends_at (f x) s1 (Y (cfg s1))" by (simp add: sends_def)
    with c show "sends_at (f x) s1 (Y (cfg s))" by simp
  qed
qed

lemma sends_then:
  assumes "sends m (\<lambda>_. [])" and "\<And>x. sends (f x) Y"
  shows "sends (bindE m f) Y"
  using sends_bindE[OF assms] by simp

lemma sends_post_request: "sends (post_request self i t) (\<lambda>c. [mds_request (c self) t i])"
  by (simp add: sends_def sends_at_post_request)

lemma api_type_config_cfg: "api_type_config (heap s a) = api_type_config (cfg s a)"
  by (simp add: cfg_def blank_def)

lemma sends_config_command:
  "sends (bindE (get_self self) (\<lambda>c. bindE (post_request self command (api_type_config c))
       (\<lambda>response. response_json response)))
     (\<lambda>c. [mds_request (c self) (api_type_config (c self)) command])"
  unfolding sends_def
proof
  fix s
  have "sends_at (bindE (post_request self command (api_type_config (cfg s self)))
       (\<lambda>response. response_json response)) s
       ([mds_request (cfg s self) (api_type_config (cfg s self)) command] @ [])"
    by (intro sends_at_bindE sends_at_post_request sends_at_response_json)
  then show "sends_at (bindE (get_self self) (\<lambda>c. bindE (post_request self command
       (api_type_config c)) (\<lambda>response. response_json response))) s
       [mds_request (cfg s self) (api_type_config (cfg s self)) command]"
    by (simp add: sends_at_def bindE_get_self api_type_config_cfg)
qed

subsection \<open>The operations of the fabric client\<close>

lemma sends_activate_zoneset:
  "sends (activate_zoneset self zoneset_name vsan_id)
     (\<lambda>c. [mds_request (c self) (api_type_config (c self))
        (''zoneset activate name '' @ zoneset_name @ '' vsan '' @ vsan_id)])"
  unfolding activate_zoneset_def Let_def
  by (intro sends_then sends_quiet sends_config_command)

lemma sends_add_device_alias:
  "sends (add_device_alias self device_alias_name wwpn)
     (\<lambda>c. [mds_request (c self) (api_type_config (c self))
        (''device-alias database ;device-alias name '' @ device_alias_name
           @ '' pwwn '' @ wwpn @ '' ;device-alias commit'')])"
  unfolding add_device_alias_def Let_def
  by (intro sends_then sends_quiet sends_config_command)

lemma sends_add_zone_to_zoneset:
  "sends (add_zone_to_zoneset self zone_name zoneset_name vsan_id)
     (\<lambda>c. [mds_request (c self) (api_type_config (c self))
        (''zoneset name '' @ zoneset_name @ '' vsan '' @ vsan_id @ '' ;member '' @ zone_name)])"
  unfolding add_zone_to_zoneset_def Let_def
  by (intro sends_then sends_quiet sends_config_command)

lemma bindE_assoc: "bindE (bindE m f) g = bindE m (\<lambda>x. bindE (f x) g)"
  by (rule ext) (simp add: bindE_def split: prod.splits sum.splits)

lemma sends_configure_zone_and_add_member:
  "sends (configure_zone_and_add_member self zone_name vsan_id wwpn device_alias_name)
     (\<lambda>c. if truthy device_alias_name then
            [mds_request (c self) (api_type_config (c self))
               (''zone name '' @ zone_name @ '' vsan '' @ vsan_id
                  @ '' ;member device-alias '' @ the device_alias_name)]
          else if truthy wwpn then
            [mds_request (c self) (api_type_config (c self))
               (''zone name '' @ zone_name @ '' vsan '' @ vsan_id
                  @ '' ;member pwwn '' @ the wwpn)]
          else [])"
proof (cases "truthy device_alias_name")
  case True
  then show ?thesis
    unfolding configure_zone_and_add_member_def Let_def
    by (simp add: bindE_assoc bindE_returnE)
       (intro sends_then sends_quiet sends_config_command)
next
  case False
  show ?thesis
  proof (cases "truthy wwpn")
    case True
    with False show ?thesis
      unfolding configure_zone_and_add_member_def Let_def
      by (simp add: bindE_assoc bindE_returnE)
         (intro sends_then sends_quiet sends_config_command)
  next
    case nw: False
    with False show ?thesis
      unfolding configure_zone_and_add_member_def
      by (simp add: sends_then sends_quiet)
  qed
qed

subsection \<open>The per-adapter loop\<close>

lemma vhba_get_dict:
  "vhba_get (vhba_dict v) ''vhba_wwpn'' = returnE (vnic_wwpn v)"
  "vhba_get (vhba_dict v) ''vhba_name'' = returnE (vnic_name v)"
  "vhba_get (vhba_dict v) ''vhba_fabric'' = returnE (placement_switch_id v)"
  "vhba_get (vhba_dict v) ''fabric'' = raise (KeyError ''fabric'')"
  "vhba_get (vhba_dict v) ''name'' = raise (KeyError ''name'')"
  by (simp_all add: vhba_get_def vhba_dict_def dict_getitem_def liftE_def)

lemma truthy_Some: "truthy (Some x) = (x \<noteq> [])" "truthy None = False"
  by (simp_all add: truthy_def)

lemma bindE_if: "bindE (if b then m else n) g = (if b then bindE m g else bindE n g)"
  by simp

lemma sends_eq: "sends m X \<Longrightarrow> (\<And>c. X c = X' c) \<Longrightarrow> sends m X'"
proof -
  assume a: "sends m X" and "\<And>c. X c = X' c"
  then have "X = X'" by (simp add: fun_eq_iff)
  with a show ?thesis by simp
qed

lemma sends_if2:
  "sends m X \<Longrightarrow> sends n Y \<Longrightarrow> sends (if b then m else n) (\<lambda>c. if b then X c else Y c)"
  by simp

lemma sends_then_logger: "sends (f ()) Y \<Longrightarrow> sends (bindE (logger l fmt args) f) Y"
  by (rule sends_then[OF sends_quiet(5)]) simp

lemma sends_then_get_self: "(\<And>c. sends (f c) Y) \<Longrightarrow> sends (bindE (get_self a) f) Y"
  by (rule sends_then[OF sends_quiet(6)])

lemma sends_vhba_get_wwpn:
  "sends (f (vnic_wwpn v)) Y \<Longrightarrow> sends (bindE (vhba_get (vhba_dict v) ''vhba_wwpn'') f) Y"
  by (simp add: vhba_get_dict bindE_returnE)

lemma sends_vhba_get_name:
  "sends (f (vnic_name v)) Y \<Longrightarrow> sends (bindE (vhba_get (vhba_dict v) ''vhba_name'') f) Y"
  by (simp add: vhba_get_dict bindE_returnE)

lemma sends_vhba_get_fabric:
  "sends (f (placement_switch_id v)) Y
     \<Longrightarrow> sends (bindE (vhba_get (vhba_dict v) ''vhba_fabric'') f) Y"
  by (simp add: vhba_get_dict bindE_returnE)

lemma sends_vhba_get_missing:
  "sends (bindE (vhba_get (vhba_dict v) ''fabric'') f) (\<lambda>_. [])"
  by (simp add: vhba_get_dict bindE_raise sends_quiet)

lemma sends_seq_add_device_alias:
  "(\<And>x. sends (f x) Y) \<Longrightarrow> sends (bindE (add_device_alias self device_alias_name wwpn) f)
     (\<lambda>c. [mds_request (c self) (api_type_config (c self))
        (''device-alias database ;device-alias name '' @ device_alias_name
           @ '' pwwn '' @ wwpn @ '' ;device-alias commit'')] @ Y c)"
  by (rule sends_bindE[OF sends_add_device_alias])

lemma sends_seq_configure_zone_and_add_member:
  "(\<And>x. sends (f x) Y)
   \<Longrightarrow> sends (bindE (configure_zone_and_add_member self zone_name vsan_id wwpn device_alias_name) f)
     (\<lambda>c. (if truthy device_alias_name then
            [mds_request (c self) (api_type_config (c self))
               (''zone name '' @ zone_name @ '' vsan '' @ vsan_id
                  @ '' ;member device-alias '' @ the device_alias_name)]
          else if truthy wwpn then
            [mds_request (c self) (api_type_config (c self))
               (''zone name '' @ zone_name @ '' vsan '' @ vsan_id
                  @ '' ;member pwwn '' @ the wwpn)]
          else []) @ Y c)"
  by (rule sends_bindE[OF sends_configure_zone_and_add_member])

lemmas sends_body_intros =
  sends_if2 sends_then_logger sends_then_get_self sends_vhba_get_wwpn sends_vhba_get_name
  sends_vhba_get_fabric sends_vhba_get_missing sends_seq_add_device_alias
  sends_seq_configure_zone_and_add_member sends_quiet

lemma sends_body:
  "sends (configure_intersight_mds_zones_body self p za va zb vb flag (vhba_dict v))
     (\<lambda>c. adapter_requests self p za va zb vb flag (cfg_request c) v)"
  apply (rule sends_eq)
   apply (unfold configure_intersight_mds_zones_body_def Let_def bindE_if bindE_assoc
      bindE_returnE bindE_sys_exit)
   apply (rule sends_body_intros)+
  apply (cases flag)
   apply (simp_all add: adapter_requests_def adapter_commands_def cfg_request_def truthy_Some
      Let_def)
  done

subsection \<open>What \<open>post_request\<close> does to the client\<close>

lemma logs_only_returnE: "logs_only (returnE x)"
  unfolding logs_only_def by (intro allI exI[of _ "[]"]) (simp add: returnE_def)

lemma logs_only_raise: "logs_only (raise e)"
  unfolding logs_only_def by (intro allI exI[of _ "[]"]) (simp add: raise_def)

lemma logs_only_logger: "logs_only (logger l fmt args)"
  unfolding logs_only_def by (intro allI exI[of _ "[Log l fmt args]"]) (simp add: logger_def)

lemma logs_only_prims:
  "logs_only (returnE x)" "logs_only (raise e)" "logs_only (sys_exit n)"
  "logs_only (liftE r)" "logs_only (logger l fmt args)" "logs_only (response_json rsp)"
proof -
  show "logs_only (liftE r)"
    by (cases r) (simp_all add: liftE_def logs_only_returnE logs_only_raise)
  show "logs_only (response_json rsp)"
    by (cases "body rsp") (simp_all add: response_json_def logs_only_returnE logs_only_raise)
qed (simp_all add: sys_exit_def logs_only_returnE logs_only_raise logs_only_logger)

lemma logs_only_bindE:
  assumes "logs_only m" "\<And>x. logs_only (f x)"
  shows "logs_only (bindE m f)"
  unfolding logs_only_def
proof
  fix s
  from assms(1) obtain l1 where 1: "snd (m s) = s\<lparr>trace := trace s @ l1\<rparr>" "posts_of l1 = []"
    by (auto simp: logs_only_def)
  show "\<exists>logs. snd (bindE m f s) = s\<lparr>trace := trace s @ logs\<rparr> \<and> posts_of logs = []"
  proof (cases "m s")
    case (Pair r s1)
    with 1 have s1: "s1 = s\<lparr>trace := trace s @ l1\<rparr>" by simp
    show ?thesis
    proof (cases r)
      case (Inl e)
      with Pair s1 1 show ?thesis by (auto simp: bindE_def)
    next
      case (Inr x)
      from assms(2)[of x] obtain l2 where
        2: "snd (f x s1) = s1\<lparr>trace := trace s1 @ l2\<rparr>" "posts_of l2 = []"
        by (auto simp: logs_only_def)
      have "snd (bindE m f s) = s\<lparr>trace := trace s @ (l1 @ l2)\<rparr>"
        using Pair Inr 2 s1 by (simp add: bindE_def)
      moreover have "posts_of (l1 @ l2) = []" using 1 2 by (simp add: posts_of_append)
      ultimately show ?thesis by blast
    qed
  qed
qed

lemma logs_only_if: "logs_only m \<Longrightarrow> logs_only n \<Longrightarrow> logs_only (if b then m else n)"
  by simp

lemma logs_only_after_reply: "logs_only (after_reply c i t r)"
  unfolding after_reply_def
  by (intro logs_only_bindE logs_only_if logs_only_prims)

lemma heap_after_reply: "heap (snd (after_reply c i t r s)) = heap s"
proof -
  from logs_only_after_reply[of c i t r] obtain logs
    where "snd (after_reply c i t r s) = s\<lparr>trace := trace s @ logs\<rparr>"
    by (auto simp: logs_only_def)
  then show ?thesis by simp
qed

lemma heap_post_request:
  "heap (snd (post_request self i t s)) = (heap s)(self := (heap s self)\<lparr>api_payload :=
     (api_payload (heap s self))\<lparr>ins_api :=
        (ins_api (api_payload (heap s self)))\<lparr>input := i, type := t\<rparr>\<rparr>\<rparr>)"
  by (simp add: post_request_unfold Let_def heap_after_reply split: http_outcome.splits)
     (simp add: sent_state_def Let_def)

lemma posted_sends_at:
  assumes "sends_at m s X"
  shows "prefix (posted m s) X" and "\<not> isl (fst (m s)) \<Longrightarrow> posted m s = X"
  using assms by (auto simp: sends_at_def posted_def emitted_def split: prod.splits)

lemma posted_post_request: "posted (post_request self i t) s = [mds_request (heap s self) t i]"
proof -
  obtain logs where logs: "trace (sent_state self i t s) = trace s @ logs" "posts_of logs = []"
    using trace_sent_state by blast
  define s2 where "s2 = (sent_state self i t s)\<lparr>trace := trace (sent_state self i t s)
     @ [Post (mds_request (heap s self) t i)]\<rparr>"
  show ?thesis
  proof (cases "post_outcome self i t s")
    case NoResponse
    then show ?thesis using logs
      by (simp add: posted_def emitted_def post_request_unfold Let_def post_outcome_def posts_of_append)
  next
    case (Reply r)
    from logs_only_after_reply[of "heap (sent_state self i t s) self" i t r] obtain l2
      where "snd (after_reply (heap (sent_state self i t s) self) i t r s2)
           = s2\<lparr>trace := trace s2 @ l2\<rparr>" "posts_of l2 = []"
      by (auto simp: logs_only_def)
    with Reply logs show ?thesis
      by (simp add: posted_def emitted_def post_request_unfold Let_def post_outcome_def posts_of_append s2_def)
  qed
qed

subsection \<open>How \<open>post_request\<close> reads the response\<close>

lemma returnE_apply: "returnE x s = (Inr x, s)"
  by (simp add: returnE_def)

lemma raise_apply: "raise e s = (Inl e, s)"
  by (simp add: raise_def)

lemma sys_exit_apply: "sys_exit n s = (Inl (SystemExit n), s)"
  by (simp add: sys_exit_def raise_def)

lemma never_exits_bindE:
  assumes "never_exits m" "\<And>x. never_exits (f x)"
  shows "never_exits (bindE m f)"
  unfolding never_exits_def
proof (intro allI)
  fix s n
  show "fst (bindE m f s) \<noteq> Inl (SystemExit n)"
  proof (cases "m s")
    case (Pair r s1)
    show ?thesis
    proof (cases r)
      case (Inl e)
      with Pair assms(1) show ?thesis by (auto simp: bindE_def never_exits_def dest: spec[of _ s])
    next
      case (Inr x)
      with Pair assms(2)[of x] show ?thesis by (auto simp: bindE_def never_exits_def)
    qed
  qed
qed

lemma dict_getitem_no_exit: "dict_getitem d k \<noteq> Inl (SystemExit n)"
  by (simp add: dict_getitem_def split: option.splits)

lemma getitem_no_exit: "getitem j k \<noteq> Inl (SystemExit n)"
  by (cases j) (simp_all add: dict_getitem_no_exit)

lemma contains_no_exit: "contains k j \<noteq> Inl (SystemExit n)"
  by (cases j) simp_all

lemma never_exits_prims:
  "never_exits (returnE x)" "never_exits (logger l fmt args)" "never_exits (response_json rsp)"
  "never_exits (liftE (getitem j k))" "never_exits (liftE (contains k j))"
proof -
  show "never_exits (response_json rsp)"
    by (cases "body rsp") (simp_all add: never_exits_def response_json_def returnE_def raise_def)
  show "never_exits (liftE (getitem j k))"
    using getitem_no_exit[of j k]
    by (cases "getitem j k") (auto simp: never_exits_def liftE_def returnE_def raise_def)
  show "never_exits (liftE (contains k j))"
    using contains_no_exit[of k j]
    by (cases "contains k j") (auto simp: never_exits_def liftE_def returnE_def raise_def)
qed (simp_all add: never_exits_def returnE_def logger_def)

lemma never_exits_if: "never_exits m \<Longrightarrow> never_exits n \<Longrightarrow> never_exits (if b then m else n)"
  by simp

lemma after_reply_200_never_exits:
  "status_code r = 200 \<Longrightarrow> never_exits (after_reply c i t r)"
  unfolding after_reply_def
  by (subst if_P, assumption) (intro never_exits_bindE never_exits_if never_exits_prims)

lemma after_reply_not_200:
  "status_code r \<noteq> 200 \<Longrightarrow>
   fst (after_reply c i t r s) = (case body r of None \<Rightarrow> Inl JSONDecodeError | Some j \<Rightarrow> Inl (SystemExit 1))"
  unfolding after_reply_def
  by (simp add: bindE_assoc bindE_logger bindE_sys_exit bindE_raise bindE_returnE response_json_def
        sys_exit_apply raise_apply split: option.splits)

lemma post_request_Reply:
  "post_outcome self i t s = Reply r \<Longrightarrow>
   post_request self i t s = after_reply (heap (sent_state self i t s) self) i t r
     ((sent_state self i t s)\<lparr>trace := trace (sent_state self i t s)
         @ [Post (mds_request (heap s self) t i)]\<rparr>)"
  by (simp add: post_request_unfold Let_def post_outcome_def)

lemma after_reply_command_failure:
  assumes "status_code r = 200" "body r = Some j" "output_section j = Inr (JObj d)"
    "map_of d ''code'' = Some code" "code \<noteq> JStr ''200''"
  shows "after_reply c i t r s = (Inr r, s\<lparr>trace := trace s @
     [Log INFO ''POST request of type '%s' with input '%s' to MDS `%s`was successful.\<newline>''
        [AStr (ip_address c), AStr t, AStr i],
      Log DEBUG ''Response Details from MDS `%s`:\<newline>Status Code: %s\<newline>Content: %s\<newline>''
        [AStr (ip_address c), AInt 200, AJson j],
      Log ERROR ''CLI command pushed to MDS `%s` generated the following error:%s\<newline>''
        [AStr (ip_address c), AJson (JObj d)]]\<rparr>)"
proof -
  from assms(3) obtain j1 j2 where ch: "getitem j ''ins_api'' = Inr j1"
      "getitem j1 ''outputs'' = Inr j2" "getitem j2 ''output'' = Inr (JObj d)"
    by (auto simp: output_section_def split: sum.splits)
  from assms(4) have mem: "''code'' \<in> fst ` set d"
    by (metis map_of_eq_None_iff option.distinct(1))
  show ?thesis
    unfolding after_reply_def
    using assms(1,2,4,5) ch mem
    by (simp add: bindE_assoc bindE_logger bindE_returnE response_json_def liftE_def
          dict_getitem_def returnE_apply)
qed

lemma output_section_body_with: "output_section (body_with d) = Inr (JObj d)"
  by (simp add: output_section_def body_with_def dict_getitem_def)

lemma post_outcome_lab: "post_outcome self i t (lab_state reply) = reply"
  by (simp add: post_outcome_def lab_state_def)

lemma heap_lab_state:
  "heap (lab_state reply) 0 = built_client ''10.0.0.1''"
  "heap (lab_state reply) (Suc 0) = built_client ''10.0.0.2''"
  by (simp_all add: lab_state_def)

lemma after_reply_returns:
  assumes "status_code r = 200" "body r = Some j" "output_section j = Inr (JObj d)"
  shows "fst (after_reply c i t r s) = Inr r"
proof -
  from assms(3) obtain j1 j2 where ch: "getitem j ''ins_api'' = Inr j1"
      "getitem j1 ''outputs'' = Inr j2" "getitem j2 ''output'' = Inr (JObj d)"
    by (auto simp: output_section_def split: sum.splits)
  show ?thesis
  proof (cases "map_of d ''code''")
    case None
    then have "''code'' \<notin> fst ` set d" by (simp add: map_of_eq_None_iff)
    then show ?thesis
      unfolding after_reply_def using assms(1,2) ch
      by (simp add: bindE_assoc bindE_logger bindE_returnE response_json_def liftE_def
          returnE_apply)
  next
    case (Some code)
    then have "''code'' \<in> fst ` set d" by (metis map_of_eq_None_iff option.distinct(1))
    then show ?thesis
      unfolding after_reply_def using assms(1,2) ch Some
      by (simp add: bindE_assoc bindE_logger bindE_returnE response_json_def liftE_def
          dict_getitem_def returnE_apply)
  qed
qed

subsection \<open>Loops, stages and the full workflow\<close>

lemma for_each_append:
  "for_each f (xs @ ys) = bindE (for_each f xs) (\<lambda>_. for_each f ys)"
  by (induction xs) (simp_all add: bindE_returnE bindE_assoc)

lemma sends_for_each:
  assumes "\<And>x. sends (f x) (\<lambda>c. X c x)"
  shows "sends (for_each f xs) (\<lambda>c. concat (map (X c) xs))"
proof (induction xs)
  case Nil
  show ?case by (simp add: sends_quiet)
next
  case (Cons x xs)
  show ?case using sends_bindE[OF assms[of x], of "\<lambda>_. for_each f xs", OF Cons.IH]
    by simp
qed

lemma sends_for_each_body:
  "sends (for_each (configure_intersight_mds_zones_body self p za va zb vb flag)
       (map vhba_dict vnics))
     (\<lambda>c. concat (map (adapter_requests self p za va zb vb flag (cfg_request c)) vnics))"
proof -
  have "for_each (configure_intersight_mds_zones_body self p za va zb vb flag) (map vhba_dict vnics)
      = for_each (\<lambda>v. configure_intersight_mds_zones_body self p za va zb vb flag (vhba_dict v)) vnics"
    by (induction vnics) simp_all
  then show ?thesis
    using sends_for_each[of "\<lambda>v. configure_intersight_mds_zones_body self p za va zb vb flag (vhba_dict v)"
      "\<lambda>c. adapter_requests self p za va zb vb flag (cfg_request c)" vnics, OF sends_body]
    by simp
qed

lemma sends_seq_add_zone_to_zoneset:
  "(\<And>x. sends (f x) Y) \<Longrightarrow> sends (bindE (add_zone_to_zoneset self zone_name zoneset_name vsan_id) f)
     (\<lambda>c. [mds_request (c self) (api_type_config (c self))
        (''zoneset name '' @ zoneset_name @ '' vsan '' @ vsan_id @ '' ;member '' @ zone_name)] @ Y c)"
  by (rule sends_bindE[OF sends_add_zone_to_zoneset])

lemma sends_seq_activate_zoneset:
  "(\<And>x. sends (f x) Y) \<Longrightarrow> sends (bindE (activate_zoneset self zoneset_name vsan_id) f)
     (\<lambda>c. [mds_request (c self) (api_type_config (c self))
        (''zoneset activate name '' @ zoneset_name @ '' vsan '' @ vsan_id)] @ Y c)"
  by (rule sends_bindE[OF sends_activate_zoneset])

lemmas sends_stage_intros =
  sends_if2 sends_then_logger sends_then_get_self sends_seq_add_zone_to_zoneset
  sends_seq_activate_zoneset sends_quiet

lemma sends_add_zones_to_zonesets:
  "sends (add_zones_to_zonesets self zsa za va zsb zb vb)
     (\<lambda>c. add_requests self zsa za va zsb zb vb (cfg_request c))"
  apply (rule sends_eq)
   apply (unfold add_zones_to_zonesets_def)
   apply (rule sends_stage_intros)+
  apply (simp add: add_requests_def cfg_request_def)
  done

lemma sends_activate_zonesets:
  "sends (activate_zonesets self zsa va zsb vb) (\<lambda>c. activate_requests self zsa va zsb vb (cfg_request c))"
  apply (rule sends_eq)
   apply (unfold activate_zonesets_def)
   apply (rule sends_stage_intros)+
  apply (simp add: activate_requests_def cfg_request_def)
  done

lemma sends_stage_add:
  "sends (configure_intersight_mds_zones_add self za va zb vb zsa zsb fadd)
     (\<lambda>c. if fadd \<and> zsa \<noteq> None \<and> zsb \<noteq> None
           then add_requests self (the zsa) za va (the zsb) zb vb (cfg_request c) else [])"
  apply (rule sends_eq)
   apply (unfold configure_intersight_mds_zones_add_def)
   apply (rule sends_stage_intros)+
  apply (simp add: add_requests_def cfg_request_def)
  done

lemma sends_stage_activate:
  "sends (configure_intersight_mds_zones_activate self va vb zsa zsb fac)
     (\<lambda>c. if fac \<and> zsa \<noteq> None \<and> zsb \<noteq> None
           then activate_requests self (the zsa) va (the zsb) vb (cfg_request c) else [])"
  apply (rule sends_eq)
   apply (unfold configure_intersight_mds_zones_activate_def)
   apply (rule sends_stage_intros)+
  apply (simp add: activate_requests_def cfg_request_def)
  done

lemma sends_fetch_organization:
  "sends (fetch_organization_moid_from_organization_name ic org) (\<lambda>_. [])"
  unfolding fetch_organization_moid_from_organization_name_def Let_def
  by (auto intro!: sends_then sends_quiet split: api_result.splits list.splits)

lemma sends_fetch_server_profile:
  "sends (fetch_server_profile_moid_from_server_profile_name_and_organization_moid ic p om)
     (\<lambda>_. [])"
  unfolding fetch_server_profile_moid_from_server_profile_name_and_organization_moid_def Let_def
  by (auto intro!: sends_then sends_quiet split: api_result.splits list.splits)

lemma sends_fetch_vhba:
  "sends (fetch_vhba_from_server_profile_moid ic pm) (\<lambda>_. [])"
  unfolding fetch_vhba_from_server_profile_moid_def Let_def
  by (auto intro!: sends_then sends_quiet split: api_result.splits list.splits)

lemma fetch_organization_result:
  "fetch_organization_moid_from_organization_name ic org s = (Inr x, s1) \<Longrightarrow>
   \<exists>rest. get_organization_organization_list ic (''Name eq '' @ apos @ org @ apos)
     = Results (x # rest)"
  unfolding fetch_organization_moid_from_organization_name_def Let_def
  by (auto simp: bindE_logger returnE_apply sys_exit_apply split: api_result.splits list.splits)

lemma fetch_server_profile_result:
  "fetch_server_profile_moid_from_server_profile_name_and_organization_moid ic p om s
     = (Inr x, s1) \<Longrightarrow>
   \<exists>rest. get_server_profile_list ic (''Name eq '' @ apos @ p @ apos
       @ '' and Organization.Moid eq '' @ apos @ om @ apos) = Results (x # rest)"
  unfolding fetch_server_profile_moid_from_server_profile_name_and_organization_moid_def Let_def
  by (auto simp: bindE_logger returnE_apply sys_exit_apply split: api_result.splits list.splits)

lemma fetch_vhba_result:
  "fetch_vhba_from_server_profile_moid ic pm s = (Inr x, s1) \<Longrightarrow>
   \<exists>vnics. get_vnic_fc_if_list ic (''Profile.Moid eq '' @ apos @ pm @ apos) = Results vnics
     \<and> x = map vhba_dict vnics"
  unfolding fetch_vhba_from_server_profile_moid_def Let_def
  by (auto simp: bindE_logger returnE_apply sys_exit_apply split: api_result.splits if_splits)

lemma sends_after_fetch:
  "sends (bindE (for_each (configure_intersight_mds_zones_body self p za va zb vb flag)
              (map vhba_dict vnics)) (\<lambda>_.
          bindE (configure_intersight_mds_zones_add self za va zb vb zsa zsb fadd) (\<lambda>_.
          configure_intersight_mds_zones_activate self va vb zsa zsb fac)))
     (\<lambda>c. concat (map (adapter_requests self p za va zb vb flag (cfg_request c)) vnics)
          @ zoneset_requests self za va zb vb zsa zsb fadd fac (cfg_request c))"
  apply (rule sends_eq)
   apply (rule sends_bindE[OF sends_for_each_body])
   apply (rule sends_bindE[OF sends_stage_add])
   apply (rule sends_stage_activate)
  apply (simp add: zoneset_requests_def)
  done

lemma sends_configure_intersight_mds_zones:
  "sends (configure_intersight_mds_zones self p org za va zb vb zsa zsb flag fadd fac)
     (\<lambda>c. concat (map (adapter_requests self p za va zb vb flag (cfg_request c))
              (fetched_vnics (intersight_client self) p org))
          @ zoneset_requests self za va zb vb zsa zsb fadd fac (cfg_request c))"
proof -
  let ?ic = "intersight_client self"
  let ?Z = "\<lambda>c. concat (map (adapter_requests self p za va zb vb flag (cfg_request c))
              (fetched_vnics ?ic p org))
          @ zoneset_requests self za va zb vb zsa zsb fadd fac (cfg_request c)"
  let ?P1 = "\<lambda>om. \<exists>rest. get_organization_organization_list ?ic
       (''Name eq '' @ apos @ org @ apos) = Results (om # rest)"
  let ?P2 = "\<lambda>om pm. \<exists>rest. get_server_profile_list ?ic (''Name eq '' @ apos @ p @ apos
       @ '' and Organization.Moid eq '' @ apos @ om @ apos) = Results (pm # rest)"
  let ?P3 = "\<lambda>pm x. \<exists>vnics. get_vnic_fc_if_list ?ic (''Profile.Moid eq '' @ apos @ pm @ apos)
       = Results vnics \<and> x = map vhba_dict vnics"
  have "sends (configure_intersight_mds_zones self p org za va zb vb zsa zsb flag fadd fac)
     (\<lambda>c. [] @ ?Z c)"
    unfolding configure_intersight_mds_zones_def
  proof (rule sends_bindE_res[where P = ?P1, OF sends_fetch_organization])
    fix s x s1
    assume "fetch_organization_moid_from_organization_name ?ic org s = (Inr x, s1)"
    then show "?P1 x" by (rule fetch_organization_result)
  next
    fix om assume P1: "?P1 om"
    have "sends (bindE (fetch_server_profile_moid_from_server_profile_name_and_organization_moid
        ?ic p om) (\<lambda>server_profile.
        bindE (fetch_vhba_from_server_profile_moid ?ic server_profile) (\<lambda>vhbas_list.
        bindE (for_each (configure_intersight_mds_zones_body self p za va zb vb flag) vhbas_list)
        (\<lambda>_. bindE (configure_intersight_mds_zones_add self za va zb vb zsa zsb fadd) (\<lambda>_.
          configure_intersight_mds_zones_activate self va vb zsa zsb fac)))))
      (\<lambda>c. [] @ ?Z c)"
    proof (rule sends_bindE_res[where P = "?P2 om", OF sends_fetch_server_profile])
      fix s x s1
      assume "fetch_server_profile_moid_from_server_profile_name_and_organization_moid
         ?ic p om s = (Inr x, s1)"
      then show "?P2 om x" by (rule fetch_server_profile_result)
    next
      fix pm assume P2: "?P2 om pm"
      have "sends (bindE (fetch_vhba_from_server_profile_moid ?ic pm) (\<lambda>vhbas_list.
        bindE (for_each (configure_intersight_mds_zones_body self p za va zb vb flag) vhbas_list)
        (\<lambda>_. bindE (configure_intersight_mds_zones_add self za va zb vb zsa zsb fadd) (\<lambda>_.
          configure_intersight_mds_zones_activate self va vb zsa zsb fac))))
        (\<lambda>c. [] @ ?Z c)"
      proof (rule sends_bindE_res[where P = "?P3 pm", OF sends_fetch_vhba])
        fix s x s1
        assume "fetch_vhba_from_server_profile_moid ?ic pm s = (Inr x, s1)"
        then show "?P3 pm x" by (rule fetch_vhba_result)
      next
        fix x assume "?P3 pm x"
        then obtain vnics where v: "get_vnic_fc_if_list ?ic
            (''Profile.Moid eq '' @ apos @ pm @ apos) = Results vnics" "x = map vhba_dict vnics"
          by blast
        from P1 P2 v have "fetched_vnics ?ic p org = vnics"
          by (auto simp: fetched_vnics_def)
        with v(2) sends_after_fetch[of self p za va zb vb flag vnics zsa zsb fadd fac]
        show "sends (bindE (for_each (configure_intersight_mds_zones_body self p za va zb vb flag)
              x) (\<lambda>_. bindE (configure_intersight_mds_zones_add self za va zb vb zsa zsb fadd)
              (\<lambda>_. configure_intersight_mds_zones_activate self va vb zsa zsb fac))) ?Z"
          by simp
      qed
      then show "sends (bindE (fetch_vhba_from_server_profile_moid ?ic pm) (\<lambda>vhbas_list.
        bindE (for_each (configure_intersight_mds_zones_body self p za va zb vb flag) vhbas_list)
        (\<lambda>_. bindE (configure_intersight_mds_zones_add self za va zb vb zsa zsb fadd) (\<lambda>_.
          configure_intersight_mds_zones_activate self va vb zsa zsb fac)))) ?Z" by simp
    qed
    then show "sends (bindE (fetch_server_profile_moid_from_server_profile_name_and_organization_moid
        ?ic p om) (\<lambda>server_profile.
        bindE (fetch_vhba_from_server_profile_moid ?ic server_profile) (\<lambda>vhbas_list.
        bindE (for_each (configure_intersight_mds_zones_body self p za va zb vb flag) vhbas_list)
        (\<lambda>_. bindE (configure_intersight_mds_zones_add self za va zb vb zsa zsb fadd) (\<lambda>_.
          configure_intersight_mds_zones_activate self va vb zsa zsb fac))))) ?Z" by simp
  qed
  then show ?thesis by simp
qed

lemma cfg_request_cfg: "cfg_request (cfg s) = config_request s"
  by (intro ext) (simp add: cfg_request_def config_request_def cfg_def blank_def mds_request_def)

lemma posted_sends:
  assumes "sends m X"
  shows "prefix (posted m s) (X (cfg s))" and "\<not> isl (fst (m s)) \<Longrightarrow> posted m s = X (cfg s)"
  using assms posted_sends_at[of m s "X (cfg s)"] by (simp_all add: sends_def)

subsection \<open>Runs that must fail\<close>

lemma fails_raise: "fails (raise e)" "fails (sys_exit n)"
  by (simp_all add: fails_def raise_apply sys_exit_apply)

lemma fails_bindE1:
  assumes "fails m"
  shows "fails (bindE m f)"
  unfolding fails_def
proof
  fix s
  obtain r s1 where ms: "m s = (r, s1)" by (cases "m s")
  with assms have "isl r" by (auto simp: fails_def dest: spec[of _ s])
  then obtain e where "r = Inl e" by (cases r) simp_all
  with ms show "isl (fst (bindE m f s))" by (simp add: bindE_def)
qed

lemma fails_bindE2: "(\<And>x. fails (f x)) \<Longrightarrow> fails (bindE m f)"
  by (auto simp: fails_def bindE_def split: prod.splits sum.splits)

lemma fails_stage_add:
  "fadd \<Longrightarrow> zsa = None \<or> zsb = None \<Longrightarrow>
   fails (configure_intersight_mds_zones_add self za va zb vb zsa zsb fadd)"
  unfolding configure_intersight_mds_zones_add_def
  by (auto intro!: fails_bindE2 fails_raise)

lemma fails_stage_activate:
  "fac \<Longrightarrow> zsa = None \<or> zsb = None \<Longrightarrow>
   fails (configure_intersight_mds_zones_activate self va vb zsa zsb fac)"
  unfolding configure_intersight_mds_zones_activate_def
  by (auto intro!: fails_bindE2 fails_raise)

lemma fails_configure_intersight_mds_zones:
  assumes "fadd \<or> fac" "zsa = None \<or> zsb = None"
  shows "fails (configure_intersight_mds_zones self p org za va zb vb zsa zsb flag fadd fac)"
proof (cases fadd)
  case True
  show ?thesis
    unfolding configure_intersight_mds_zones_def
    by (intro fails_bindE2 fails_bindE1 fails_stage_add True assms(2))
next
  case False
  with assms(1) have fac by simp
  show ?thesis
    unfolding configure_intersight_mds_zones_def
    by (intro fails_bindE2 fails_stage_activate \<open>fac\<close> assms(2))
qed

subsection \<open>What the full workflow posts\<close>

lemma posted_configure_intersight_mds_zones:
  "prefix (posted (configure_intersight_mds_zones self p org za va zb vb zsa zsb flag fadd fac) s)
     (concat (map (adapter_requests self p za va zb vb flag (config_request s))
        (fetched_vnics (intersight_client self) p org))
      @ zoneset_requests self za va zb vb zsa zsb fadd fac (config_request s))"
  using posted_sends(1)[OF sends_configure_intersight_mds_zones,
      of self p org za va zb vb zsa zsb flag fadd fac s]
  by (simp add: cfg_request_cfg)

lemma input_config_request: "input (ins_api (data (config_request s a command))) = command"
  by (simp add: config_request_def mds_request_def)

lemma list_all_prefix: "prefix xs ys \<Longrightarrow> list_all P ys \<Longrightarrow> list_all P xs"
  by (auto simp: prefix_def)

lemma adapter_commands_not_zoneset:
  "c \<in> set (adapter_commands p z vs flag v) \<Longrightarrow> \<not> prefix ''zoneset '' c"
  by (auto simp: adapter_commands_def Let_def split: if_splits)

lemma adapter_requests_not_zoneset:
  "list_all (\<lambda>r. \<not> prefix ''zoneset '' (input (ins_api (data r))))
     (adapter_requests self p za va zb vb flag (config_request s) v)"
  unfolding list_all_iff adapter_requests_def
  using adapter_commands_not_zoneset
  by (auto simp: input_config_request simp del: Cons_prefix_Cons)

subsection \<open>Runs against switches that accept everything\<close>

lemma MdsClient_init_builds:
  "ip \<noteq> [] \<Longrightarrow>
   MdsClient_init a (Some ip) (Some ''admin'') (Some ''secret'') s =
     (Inr (), s\<lparr>heap := (heap s)(a := built_client ip),
        trace := trace s @
          [Log INFO
             ''Initializing `MDSClient` instance with IP address '%s' and username '%s'.\<newline>''
             [AStr ip, AStr ''admin'']]\<rparr>)"
  by (simp add: MdsClient_init_def bindE_logger truthy_Some set_self_def built_client_def)

lemma after_reply_ok:
  "after_reply c i t ok_response s = (Inr ok_response, s\<lparr>trace := trace s @
     [Log INFO ''POST request of type '%s' with input '%s' to MDS `%s`was successful.\<newline>''
        [AStr (ip_address c), AStr t, AStr i],
      Log DEBUG ''Response Details from MDS `%s`:\<newline>Status Code: %s\<newline>Content: %s\<newline>''
        [AStr (ip_address c), AInt 200,
         AJson (body_with [(''code'', JStr ''200''), (''msg'', JStr ''Success'')])]]\<rparr>)"
  unfolding after_reply_def
  by (simp add: ok_response_def body_with_def bindE_assoc bindE_logger bindE_returnE
      response_json_def liftE_def dict_getitem_def)
     (simp add: returnE_def)

lemma post_request_ok:
  assumes "network s = (\<lambda>_ _. Reply ok_response)"
  shows "post_request self i t s =
     (Inr ok_response,
      (sent_state self i t s)\<lparr>trace := trace (sent_state self i t s) @
        [Post (mds_request (heap s self) t i),
         Log INFO ''POST request of type '%s' with input '%s' to MDS `%s`was successful.\<newline>''
           [AStr (ip_address (heap s self)), AStr t, AStr i],
         Log DEBUG ''Response Details from MDS `%s`:\<newline>Status Code: %s\<newline>Content: %s\<newline>''
           [AStr (ip_address (heap s self)), AInt 200,
            AJson (body_with [(''code'', JStr ''200''), (''msg'', JStr ''Success'')])]]\<rparr>)"
  using assms
  by (simp add: post_request_Reply[of self i t s ok_response] post_outcome_def after_reply_ok)
     (simp add: sent_state_def Let_def)

lemma bindE_post_request_ok:
  assumes "network s = (\<lambda>_ _. Reply ok_response)"
  shows "bindE (post_request self i t) f s = f ok_response
     ((sent_state self i t s)\<lparr>trace := trace (sent_state self i t s) @
        [Post (mds_request (heap s self) t i),
         Log INFO ''POST request of type '%s' with input '%s' to MDS `%s`was successful.\<newline>''
           [AStr (ip_address (heap s self)), AStr t, AStr i],
         Log DEBUG ''Response Details from MDS `%s`:\<newline>Status Code: %s\<newline>Content: %s\<newline>''
           [AStr (ip_address (heap s self)), AInt 200,
            AJson (body_with [(''code'', JStr ''200''), (''msg'', JStr ''Success'')])]]\<rparr>)"
  by (simp add: bindE_def post_request_ok[OF assms])

lemma network_lab_state: "network (lab_state r) = (\<lambda>_ _. r)"
  by (simp add: lab_state_def)

lemma lab_ok_response: "lab_ok = Reply ok_response"
  by (simp add: lab_ok_def ok_response_def)

lemma ok_body_json:
  "response_json ok_response
     = returnE (body_with [(''code'', JStr ''200''), (''msg'', JStr ''Success'')])"
  by (simp add: response_json_def ok_response_def)

subsection \<open>The alias-only loop and unplaced adapters\<close>

lemmas sends_alias_intros =
  sends_if2 sends_then_logger sends_then_get_self sends_vhba_get_wwpn sends_vhba_get_name
  sends_vhba_get_fabric sends_vhba_get_missing sends_seq_add_device_alias sends_quiet

lemma sends_add_device_aliases_body:
  "sends (add_device_aliases_body self p (vhba_dict v))
     (\<lambda>c. if placement_switch_id v = ''A'' then
            [cfg_request c (mds_client_a self)
               (''device-alias database ;device-alias name ''
                  @ p @ ''-'' @ placement_switch_id v @ ''-'' @ vnic_name v
                  @ '' pwwn '' @ vnic_wwpn v @ '' ;device-alias commit'')]
          else if placement_switch_id v = ''B'' then
            [cfg_request c (mds_client_b self)
               (''device-alias database ;device-alias name ''
                  @ p @ ''-'' @ placement_switch_id v @ ''-'' @ vnic_name v
                  @ '' pwwn '' @ vnic_wwpn v @ '' ;device-alias commit'')]
          else [])"
  apply (rule sends_eq)
   apply (unfold add_device_aliases_body_def Let_def bindE_if bindE_assoc bindE_returnE
      bindE_sys_exit)
   apply (rule sends_alias_intros)+
  apply (simp add: cfg_request_def)
  done

lemma body_unknown_fabric_True:
  assumes "placement_switch_id v \<noteq> ''A''" "placement_switch_id v \<noteq> ''B''"
  shows "configure_intersight_mds_zones_body self p za va zb vb (Some True) (vhba_dict v) s =
     (Inl (KeyError ''fabric''), s\<lparr>trace := trace s @
        [Log INFO ''Adding device alias '%s' with WWPN '%s' to MDS '%s' (Fabric %s)\<newline>''
           [AStr (p @ ''-'' @ placement_switch_id v @ ''-'' @ vnic_name v), AStr (vnic_wwpn v),
            AStr (ip_address (heap s (mds_client_b self))), AStr (placement_switch_id v)]]\<rparr>)"
  unfolding configure_intersight_mds_zones_body_def Let_def
  using assms
  apply (simp add: vhba_get_dict bindE_returnE bindE_assoc bindE_if bindE_raise)
  apply (simp add: bindE_logger bindE_get_self raise_apply)
  done

lemma body_unknown_fabric_False:
  assumes "placement_switch_id v \<noteq> ''A''" "placement_switch_id v \<noteq> ''B''"
  shows "configure_intersight_mds_zones_body self p za va zb vb (Some False) (vhba_dict v) s =
     (Inl (KeyError ''fabric''), s\<lparr>trace := trace s @
        [Log INFO ''Skipping device alias creation for vHBA '%s' with WWPN '%s'\<newline>''
           [AStr (vnic_name v), AStr (vnic_wwpn v)],
         Log INFO ''Using WWPN '%s' directly for vHBA '%s' to configue zone member\<newline>''
           [AStr (vnic_wwpn v), AStr (vnic_name v)]]\<rparr>)"
  unfolding configure_intersight_mds_zones_body_def Let_def
  using assms
  apply (simp add: vhba_get_dict bindE_returnE bindE_assoc bindE_if bindE_raise)
  apply (simp add: bindE_logger bindE_get_self raise_apply)
  done

lemma alias_body_unknown_fabric:
  assumes "placement_switch_id v \<noteq> ''A''" "placement_switch_id v \<noteq> ''B''"
  shows "add_device_aliases_body self p (vhba_dict v) s = (Inl (KeyError ''fabric''), s)"
  unfolding add_device_aliases_body_def Let_def
  using assms
  by (simp add: vhba_get_dict bindE_returnE bindE_assoc bindE_if bindE_raise raise_apply)

lemma zoneset_requests_not_alias:
  "list_all (\<lambda>r. \<not> prefix ''device-alias '' (input (ins_api (data r))))
     (zoneset_requests self za va zb vb zsa zsb fadd fac (config_request s))"
  by (simp add: zoneset_requests_def add_requests_def activate_requests_def
      input_config_request)

lemma adapter_requests_False_not_alias:
  "list_all (\<lambda>r. \<not> prefix ''device-alias '' (input (ins_api (data r))))
     (adapter_requests self p za va zb vb (Some False) (config_request s) v)"
  by (simp add: adapter_requests_def adapter_commands_def input_config_request)

lemma fetched_vnics_lab: "fetched_vnics (intersight_client (lab_bridge vnics)) p org = vnics"
  by (simp add: fetched_vnics_def lab_bridge_def)

lemma lab_bridge_clients:
  "mds_client_a (lab_bridge vnics) = 0" "mds_client_b (lab_bridge vnics) = Suc 0"
  by (simp_all add: lab_bridge_def)

lemma body_lab_returns:
  "fst (configure_intersight_mds_zones_body (lab_bridge []) ''srv1'' ''zone-a'' ''100''
      ''zone-b'' ''200'' (Some True)
      (vhba_dict \<lparr>vnic_wwpn = ''20:00:00:00:00:00:00:01'', vnic_name = ''vHBA0'',
         placement_switch_id = ''A''\<rparr>) (lab_state lab_ok)) = Inr ()"
  unfolding configure_intersight_mds_zones_body_def Let_def
  apply (simp add: vhba_get_dict bindE_returnE bindE_assoc bindE_if
      add_device_alias_def configure_zone_and_add_member_def truthy_Some Let_def lab_bridge_def)
  apply (simp add: bindE_logger bindE_get_self
      bindE_post_request_ok network_lab_state lab_ok_response sent_state_def ok_body_json
      bindE_returnE Let_def)
  apply (simp add: returnE_def)
  done

section \<open>The claims\<close>

text \<open>
  C1: the requests a full run posts are an initial segment of this sequence: for each
  adapter, in the order the inventory returned them, its commands sent by the client of
  fabric A with \<open>zone_name_a\<close> and \<open>vsan_id_a\<close> when its fabric tag is \<open>A\<close>, by the
  client of fabric B with \<open>zone_name_b\<close> and \<open>vsan_id_b\<close> when it is \<open>B\<close>, and none
  for any other tag; then the zoneset requests.  No adapter's command goes out through
  the other fabric's client or with the other fabric's zone or VSAN.
\<close>

theorem C1_fabric_dispatch:
  "prefix (posted (configure_intersight_mds_zones self server_profile_name organization_name
        zone_name_a vsan_id_a zone_name_b vsan_id_b zoneset_name_a zoneset_name_b
        flag_configure_device_aliases flag_add_zones_to_zonesets flag_activate_zonesets) s)
     (concat (map (\<lambda>v.
          if placement_switch_id v = ''A'' then
            map (config_request s (mds_client_a self))
              (adapter_commands server_profile_name zone_name_a vsan_id_a
                 flag_configure_device_aliases v)
          else if placement_switch_id v = ''B'' then
            map (config_request s (mds_client_b self))
              (adapter_commands server_profile_name zone_name_b vsan_id_b
                 flag_configure_device_aliases v)
          else [])
        (fetched_vnics (intersight_client self) server_profile_name organization_name))
      @ zoneset_requests self zone_name_a vsan_id_a zone_name_b vsan_id_b zoneset_name_a
          zoneset_name_b flag_add_zones_to_zonesets flag_activate_zonesets (config_request s))"
proof -
  have "(\<lambda>v. if placement_switch_id v = ''A'' then
            map (config_request s (mds_client_a self))
              (adapter_commands server_profile_name zone_name_a vsan_id_a
                 flag_configure_device_aliases v)
          else if placement_switch_id v = ''B'' then
            map (config_request s (mds_client_b self))
              (adapter_commands server_profile_name zone_name_b vsan_id_b
                 flag_configure_device_aliases v)
          else [])
      = adapter_requests self server_profile_name zone_name_a vsan_id_a zone_name_b vsan_id_b
          flag_configure_device_aliases (config_request s)"
    by (rule ext) (simp add: adapter_requests_def)
  then show ?thesis
    using posted_configure_intersight_mds_zones[of self server_profile_name organization_name
        zone_name_a vsan_id_a zone_name_b vsan_id_b zoneset_name_a zoneset_name_b
        flag_configure_device_aliases flag_add_zones_to_zonesets flag_activate_zonesets s]
    by simp
qed

text \<open>
  C2, as stated: a response whose status code lies in the 2xx range is not classified as
  a transport failure.  It is, unless the code is 200: a 201 with a well-formed body ends
  the call in \<open>sys.exit(1)\<close>.
\<close>

theorem C2_status_201_exits:
  "post_outcome 0 ''zone name z1 vsan 100'' ''cli_conf'' (lab_state lab_created)
     = Reply \<lparr>status_code = 201,
         body = Some (body_with [(''code'', JStr ''200''), (''msg'', JStr ''Success'')])\<rparr>
   \<and> fst (post_request 0 ''zone name z1 vsan 100'' ''cli_conf'' (lab_state lab_created))
       = Inl (SystemExit 1)"
  using post_request_Reply[OF post_outcome_lab[of _ _ _ lab_created, unfolded lab_created_def]]
  by (simp add: post_outcome_lab after_reply_not_200 lab_created_def)

text \<open>
  C2, amended: only status code 200 passes the check of \<open>post_request\<close>.  With 200 the
  call never ends in \<open>sys.exit\<close>, and it returns the response whenever the body is JSON
  whose output section is an object.  With any other code, the other 2xx codes included,
  the call aborts: by a logged error and \<open>sys.exit(1)\<close> when the body is JSON, by the
  decoding exception otherwise.
\<close>

theorem C2_only_200_passes:
  assumes "post_outcome self i t s = Reply r"
  shows "(if status_code r = 200
          then (\<forall>n. fst (post_request self i t s) \<noteq> Inl (SystemExit n))
          else fst (post_request self i t s) =
                 (case body r of None \<Rightarrow> Inl JSONDecodeError | Some j \<Rightarrow> Inl (SystemExit 1)))
       \<and> (\<forall>j d. status_code r = 200 \<and> body r = Some j \<and> output_section j = Inr (JObj d)
             \<longrightarrow> fst (post_request self i t s) = Inr r)"
  using after_reply_200_never_exits[of r]
  by (auto simp: post_request_Reply[OF assms] after_reply_not_200 never_exits_def
        after_reply_returns)

theorem C2_only_200_passes_witness:
  "post_outcome 0 ''zone name z1 vsan 100'' ''cli_conf'' (lab_state lab_ok) = lab_ok
   \<and> (\<forall>n. fst (post_request 0 ''zone name z1 vsan 100'' ''cli_conf'' (lab_state lab_ok))
          \<noteq> Inl (SystemExit n))
   \<and> fst (post_request 0 ''zone name z1 vsan 100'' ''cli_conf'' (lab_state lab_ok))
       = Inr \<lparr>status_code = 200,
           body = Some (body_with [(''code'', JStr ''200''), (''msg'', JStr ''Success'')])\<rparr>"
  using C2_only_200_passes[OF post_outcome_lab[of 0 "''zone name z1 vsan 100''" "''cli_conf''" lab_ok, unfolded lab_ok_def]]
  by (simp add: post_outcome_lab output_section_body_with lab_ok_def)

text \<open>
  C3, as stated: whenever the HTTP response is successful and its body carries a
  \<open>code\<close> other than \<open>"200"\<close>, the command error is logged and the response is
  returned.  Not so in two cases.  A 201 response with code \<open>"400"\<close> ends the call in
  \<open>sys.exit(1)\<close>.  A 200 response whose output section is a list with an entry of
  code \<open>"400"\<close> is returned with no error logged: \<open>"code" in\<close> a list compares
  its entries with the string \<open>"code"\<close>.
\<close>

theorem C3_unlogged_or_halted:
  "post_outcome 0 ''zone name z1 vsan 100 ;member pwwn 20:00:00:00:00:00:00:01'' ''cli_conf''
       (lab_state lab_created_failed)
     = Reply \<lparr>status_code = 201,
         body = Some (body_with [(''code'', JStr ''400''), (''msg'', JStr ''Syntax error'')])\<rparr>
   \<and> fst (post_request 0 ''zone name z1 vsan 100 ;member pwwn 20:00:00:00:00:00:00:01''
          ''cli_conf'' (lab_state lab_created_failed)) = Inl (SystemExit 1)
   \<and> post_outcome 0 ''zone name z1 vsan 100 ;member pwwn 20:00:00:00:00:00:00:01'' ''cli_conf''
       (lab_state lab_listed_failed)
     = Reply \<lparr>status_code = 200,
         body = Some (JObj [(''ins_api'', JObj [(''outputs'', JObj [(''output'',
           JList [JObj [(''code'', JStr ''200''), (''msg'', JStr ''Success'')],
                  JObj [(''code'', JStr ''400''), (''msg'', JStr ''Syntax error'')]])])])])\<rparr>
   \<and> \<not> isl (fst (post_request 0 ''zone name z1 vsan 100 ;member pwwn 20:00:00:00:00:00:00:01''
          ''cli_conf'' (lab_state lab_listed_failed)))
   \<and> \<not> list_ex is_error_log
         (emitted (post_request 0 ''zone name z1 vsan 100 ;member pwwn 20:00:00:00:00:00:00:01''
            ''cli_conf'') (lab_state lab_listed_failed))"
proof -
  let ?cmd = "''zone name z1 vsan 100 ;member pwwn 20:00:00:00:00:00:00:01''"
  have 1: "fst (post_request 0 ?cmd ''cli_conf'' (lab_state lab_created_failed))
      = Inl (SystemExit 1)"
  proof -
    have "post_outcome 0 ?cmd ''cli_conf'' (lab_state lab_created_failed)
      = Reply \<lparr>status_code = 201,
         body = Some (body_with [(''code'', JStr ''400''), (''msg'', JStr ''Syntax error'')])\<rparr>"
      by (simp add: post_outcome_lab lab_created_failed_def)
    from post_request_Reply[OF this] show ?thesis
      by (simp add: after_reply_not_200)
  qed
  have 2: "post_request 0 ?cmd ''cli_conf'' (lab_state lab_listed_failed)
      = after_reply (heap (sent_state 0 ?cmd ''cli_conf'' (lab_state lab_listed_failed)) 0)
          ?cmd ''cli_conf''
          \<lparr>status_code = 200,
           body = Some (JObj [(''ins_api'', JObj [(''outputs'', JObj [(''output'',
             JList [JObj [(''code'', JStr ''200''), (''msg'', JStr ''Success'')],
                    JObj [(''code'', JStr ''400''), (''msg'', JStr ''Syntax error'')]])])])])\<rparr>
          ((sent_state 0 ?cmd ''cli_conf'' (lab_state lab_listed_failed))
             \<lparr>trace := trace (sent_state 0 ?cmd ''cli_conf'' (lab_state lab_listed_failed))
                @ [Post (mds_request (heap (lab_state lab_listed_failed) 0) ''cli_conf'' ?cmd)]\<rparr>)"
  proof (rule post_request_Reply)
    show "post_outcome 0 ?cmd ''cli_conf'' (lab_state lab_listed_failed)
      = Reply \<lparr>status_code = 200,
           body = Some (JObj [(''ins_api'', JObj [(''outputs'', JObj [(''output'',
             JList [JObj [(''code'', JStr ''200''), (''msg'', JStr ''Success'')],
                    JObj [(''code'', JStr ''400''), (''msg'', JStr ''Syntax error'')]])])])])\<rparr>"
      by (simp add: post_outcome_lab lab_listed_failed_def)
  qed
  have 3: "\<not> isl (fst (post_request 0 ?cmd ''cli_conf'' (lab_state lab_listed_failed)))
     \<and> \<not> list_ex is_error_log
         (emitted (post_request 0 ?cmd ''cli_conf'') (lab_state lab_listed_failed))"
    unfolding emitted_def 2 after_reply_def
    apply (simp add: bindE_assoc bindE_logger bindE_returnE response_json_def liftE_def
        dict_getitem_def)
    apply (simp add: returnE_def sent_state_def Let_def lab_state_def)
    done
  show ?thesis
    using 1 3 by (simp add: post_outcome_lab lab_created_failed_def lab_listed_failed_def)
qed

text \<open>
  C3, amended: when the response has status code 200 and the output section of its body
  is an object with a \<open>code\<close> item other than \<open>"200"\<close>, \<open>post_request\<close> logs the
  command error last, returns the response, and whatever follows the call runs on.
\<close>

theorem C3_command_failure_logged:
  assumes "post_outcome self i t s = Reply r" and "status_code r = 200"
    and "body r = Some j" and "output_section j = Inr (JObj d)"
    and "map_of d ''code'' = Some code" and "code \<noteq> JStr ''200''"
  shows "fst (post_request self i t s) = Inr r
    \<and> last (emitted (post_request self i t) s) =
        Log ERROR ''CLI command pushed to MDS `%s` generated the following error:%s\<newline>''
          [AStr (ip_address (heap s self)), AJson (JObj d)]
    \<and> bindE (post_request self i t) f s = f r (snd (post_request self i t s))"
  by (simp add: post_request_Reply[OF assms(1)] after_reply_command_failure[OF assms(2-6)]
        emitted_def sent_state_def Let_def bindE_def)

theorem C3_command_failure_logged_witness:
  "post_outcome 0 ''zone name z1 vsan 100'' ''cli_conf'' (lab_state lab_failed) = lab_failed
   \<and> fst (post_request 0 ''zone name z1 vsan 100'' ''cli_conf'' (lab_state lab_failed))
       = Inr \<lparr>status_code = 200,
           body = Some (body_with [(''code'', JStr ''400''), (''msg'', JStr ''Syntax error'')])\<rparr>
   \<and> last (emitted (post_request 0 ''zone name z1 vsan 100'' ''cli_conf'') (lab_state lab_failed)) =
        Log ERROR ''CLI command pushed to MDS `%s` generated the following error:%s\<newline>''
          [AStr ''10.0.0.1'', AJson (JObj [(''code'', JStr ''400''), (''msg'', JStr ''Syntax error'')])]"
  using C3_command_failure_logged[OF post_outcome_lab[of 0 "''zone name z1 vsan 100''" "''cli_conf''" lab_failed, unfolded lab_failed_def],
      of "body_with [(''code'', JStr ''400''), (''msg'', JStr ''Syntax error'')]"
         "[(''code'', JStr ''400''), (''msg'', JStr ''Syntax error'')]" "JStr ''400''" "\<lambda>_. returnE ()"]
  by (simp add: post_outcome_lab output_section_body_with lab_failed_def heap_lab_state
      built_client_def)

text \<open>
  C4: when adding zones to zonesets or activating zonesets is requested and a zoneset
  name is unset, the full run fails, and nothing it posted is a zoneset command (the
  commands of \<open>add_zone_to_zoneset\<close> and \<open>activate_zoneset\<close> both start with
  \<open>zoneset\<close>): all it posted belongs to the per-adapter loop.
\<close>

theorem C4_zoneset_names_required:
  assumes "flag_add_zones_to_zonesets \<or> flag_activate_zonesets"
    and "zoneset_name_a = None \<or> zoneset_name_b = None"
  shows "isl (fst (configure_intersight_mds_zones self server_profile_name organization_name
        zone_name_a vsan_id_a zone_name_b vsan_id_b zoneset_name_a zoneset_name_b
        flag_configure_device_aliases flag_add_zones_to_zonesets flag_activate_zonesets s))
    \<and> list_all (\<lambda>r. \<not> prefix ''zoneset '' (input (ins_api (data r))))
        (posted (configure_intersight_mds_zones self server_profile_name organization_name
          zone_name_a vsan_id_a zone_name_b vsan_id_b zoneset_name_a zoneset_name_b
          flag_configure_device_aliases flag_add_zones_to_zonesets flag_activate_zonesets) s)
    \<and> prefix (posted (configure_intersight_mds_zones self server_profile_name organization_name
          zone_name_a vsan_id_a zone_name_b vsan_id_b zoneset_name_a zoneset_name_b
          flag_configure_device_aliases flag_add_zones_to_zonesets flag_activate_zonesets) s)
        (concat (map (adapter_requests self server_profile_name zone_name_a vsan_id_a
            zone_name_b vsan_id_b flag_configure_device_aliases (config_request s))
          (fetched_vnics (intersight_client self) server_profile_name organization_name)))"
proof -
  let ?run = "configure_intersight_mds_zones self server_profile_name organization_name
        zone_name_a vsan_id_a zone_name_b vsan_id_b zoneset_name_a zoneset_name_b
        flag_configure_device_aliases flag_add_zones_to_zonesets flag_activate_zonesets"
  let ?loop = "concat (map (adapter_requests self server_profile_name zone_name_a vsan_id_a
            zone_name_b vsan_id_b flag_configure_device_aliases (config_request s))
          (fetched_vnics (intersight_client self) server_profile_name organization_name))"
  have 1: "isl (fst (?run s))"
    using fails_configure_intersight_mds_zones[OF assms] by (simp add: fails_def)
  have "zoneset_requests self zone_name_a vsan_id_a zone_name_b vsan_id_b zoneset_name_a
          zoneset_name_b flag_add_zones_to_zonesets flag_activate_zonesets (config_request s) = []"
    using assms(2) by (auto simp: zoneset_requests_def)
  with posted_configure_intersight_mds_zones[of self server_profile_name organization_name
        zone_name_a vsan_id_a zone_name_b vsan_id_b zoneset_name_a zoneset_name_b
        flag_configure_device_aliases flag_add_zones_to_zonesets flag_activate_zonesets s]
  have 2: "prefix (posted ?run s) ?loop" by simp
  have "list_all (\<lambda>r. \<not> prefix ''zoneset '' (input (ins_api (data r)))) ?loop"
    using adapter_requests_not_zoneset by (auto simp: list_all_iff)
  with 2 have 3: "list_all (\<lambda>r. \<not> prefix ''zoneset '' (input (ins_api (data r))))
      (posted ?run s)" by (rule list_all_prefix)
  from 1 2 3 show ?thesis by simp
qed

theorem C4_zoneset_names_required_witness:
  "isl (fst (configure_intersight_mds_zones (lab_bridge lab_vnics) ''srv1'' ''default''
      ''zone-a'' ''100'' ''zone-b'' ''200'' None (Some ''zoneset-b'')
      (Some True) True True (lab_state lab_ok)))
   \<and> list_all (\<lambda>r. \<not> prefix ''zoneset '' (input (ins_api (data r))))
      (posted (configure_intersight_mds_zones (lab_bridge lab_vnics) ''srv1'' ''default''
         ''zone-a'' ''100'' ''zone-b'' ''200'' None (Some ''zoneset-b'')
         (Some True) True True) (lab_state lab_ok))"
  using C4_zoneset_names_required[of True True None "Some ''zoneset-b''" "lab_bridge lab_vnics"
      "''srv1''" "''default''" "''zone-a''" "''100''" "''zone-b''" "''200''" "Some True"
      "lab_state lab_ok"]
  by simp

text \<open>
  C5, at a list with an unplaced vHBA between two placed ones, against switches that
  accept everything: the run ends at the unplaced record and the record after it is not
  processed, but it ends in \<open>KeyError('fabric')\<close>, raised while the arguments of
  \<open>logger.error\<close> are evaluated; no error is logged and \<open>sys.exit(1)\<close> is not
  reached.
\<close>

theorem C5_unknown_fabric_unlogged:
  "fst (configure_intersight_mds_zones (lab_bridge lab_mixed) ''srv1'' ''default''
      ''zone-a'' ''100'' ''zone-b'' ''200'' (Some ''zoneset-a'') (Some ''zoneset-b'')
      (Some True) True True (lab_state lab_ok)) = Inl (KeyError ''fabric'')
   \<and> \<not> list_ex is_error_log
        (emitted (configure_intersight_mds_zones (lab_bridge lab_mixed) ''srv1'' ''default''
           ''zone-a'' ''100'' ''zone-b'' ''200'' (Some ''zoneset-a'') (Some ''zoneset-b'')
           (Some True) True True) (lab_state lab_ok))
   \<and> posted (configure_intersight_mds_zones (lab_bridge lab_mixed) ''srv1'' ''default''
        ''zone-a'' ''100'' ''zone-b'' ''200'' (Some ''zoneset-a'') (Some ''zoneset-b'')
        (Some True) True True) (lab_state lab_ok)
      = [config_request (lab_state lab_ok) 0
           ''device-alias database ;device-alias name srv1-A-vHBA0 pwwn 20:00:00:00:00:00:00:01 ;device-alias commit'',
         config_request (lab_state lab_ok) 0
           ''zone name zone-a vsan 100 ;member device-alias srv1-A-vHBA0'']"
  unfolding configure_intersight_mds_zones_def posted_def emitted_def
    fetch_organization_moid_from_organization_name_def
    fetch_server_profile_moid_from_server_profile_name_and_organization_moid_def
    fetch_vhba_from_server_profile_moid_def
    configure_intersight_mds_zones_body_def
  apply (simp add: lab_bridge_def lab_mixed_def Let_def vhba_get_dict bindE_returnE bindE_assoc
      bindE_if bindE_raise add_device_alias_def configure_zone_and_add_member_def truthy_Some)
  apply (simp add: bindE_logger bindE_get_self bindE_post_request_ok network_lab_state
      lab_ok_response sent_state_def ok_body_json bindE_returnE bindE_raise Let_def raise_apply)
  apply (simp add: lab_state_def config_request_def mds_request_def built_client_def)
  done

text \<open>
  C6: in the full workflow, with the flag \<open>False\<close> the per-adapter requests are
  one \<open>member pwwn\<close> command per adapter with its raw WWPN (none for an empty WWPN),
  and no posted command is an alias creation; with the flag \<open>True\<close> they are, per
  adapter, the alias creation and then \<open>member device-alias\<close> with the computed alias.
  A zone-member call given both a WWPN and a non-empty alias uses the alias.
\<close>

theorem C6_alias_flag:
  "(flag_configure_device_aliases = Some False \<longrightarrow>
      prefix (posted (configure_intersight_mds_zones self server_profile_name organization_name
          zone_name_a vsan_id_a zone_name_b vsan_id_b zoneset_name_a zoneset_name_b
          flag_configure_device_aliases flag_add_zones_to_zonesets flag_activate_zonesets) s)
        (concat (map (\<lambda>v.
            if vnic_wwpn v = [] then []
            else if placement_switch_id v = ''A'' then
              [config_request s (mds_client_a self)
                 (''zone name '' @ zone_name_a @ '' vsan '' @ vsan_id_a
                    @ '' ;member pwwn '' @ vnic_wwpn v)]
            else if placement_switch_id v = ''B'' then
              [config_request s (mds_client_b self)
                 (''zone name '' @ zone_name_b @ '' vsan '' @ vsan_id_b
                    @ '' ;member pwwn '' @ vnic_wwpn v)]
            else [])
          (fetched_vnics (intersight_client self) server_profile_name organization_name))
         @ zoneset_requests self zone_name_a vsan_id_a zone_name_b vsan_id_b zoneset_name_a
             zoneset_name_b flag_add_zones_to_zonesets flag_activate_zonesets (config_request s))
      \<and> list_all (\<lambda>r. \<not> prefix ''device-alias '' (input (ins_api (data r))))
          (posted (configure_intersight_mds_zones self server_profile_name organization_name
            zone_name_a vsan_id_a zone_name_b vsan_id_b zoneset_name_a zoneset_name_b
            flag_configure_device_aliases flag_add_zones_to_zonesets flag_activate_zonesets) s))
   \<and> (flag_configure_device_aliases = Some True \<longrightarrow>
      prefix (posted (configure_intersight_mds_zones self server_profile_name organization_name
          zone_name_a vsan_id_a zone_name_b vsan_id_b zoneset_name_a zoneset_name_b
          flag_configure_device_aliases flag_add_zones_to_zonesets flag_activate_zonesets) s)
        (concat (map (\<lambda>v.
            if placement_switch_id v = ''A'' then
              [config_request s (mds_client_a self)
                 (''device-alias database ;device-alias name ''
                    @ server_profile_name @ ''-'' @ placement_switch_id v @ ''-'' @ vnic_name v
                    @ '' pwwn '' @ vnic_wwpn v @ '' ;device-alias commit''),
               config_request s (mds_client_a self)
                 (''zone name '' @ zone_name_a @ '' vsan '' @ vsan_id_a
                    @ '' ;member device-alias ''
                    @ server_profile_name @ ''-'' @ placement_switch_id v @ ''-'' @ vnic_name v)]
            else if placement_switch_id v = ''B'' then
              [config_request s (mds_client_b self)
                 (''device-alias database ;device-alias name ''
                    @ server_profile_name @ ''-'' @ placement_switch_id v @ ''-'' @ vnic_name v
                    @ '' pwwn '' @ vnic_wwpn v @ '' ;device-alias commit''),
               config_request s (mds_client_b self)
                 (''zone name '' @ zone_name_b @ '' vsan '' @ vsan_id_b
                    @ '' ;member device-alias ''
                    @ server_profile_name @ ''-'' @ placement_switch_id v @ ''-'' @ vnic_name v)]
            else [])
          (fetched_vnics (intersight_client self) server_profile_name organization_name))
         @ zoneset_requests self zone_name_a vsan_id_a zone_name_b vsan_id_b zoneset_name_a
             zoneset_name_b flag_add_zones_to_zonesets flag_activate_zonesets (config_request s)))
   \<and> (device_alias_name \<noteq> [] \<longrightarrow>
      prefix (posted (configure_zone_and_add_member a zone_name vsan_id (Some wwpn)
          (Some device_alias_name)) s)
        [config_request s a
           (''zone name '' @ zone_name @ '' vsan '' @ vsan_id
              @ '' ;member device-alias '' @ device_alias_name)])"
proof -
  let ?run = "configure_intersight_mds_zones self server_profile_name organization_name
          zone_name_a vsan_id_a zone_name_b vsan_id_b zoneset_name_a zoneset_name_b"
  let ?vs = "fetched_vnics (intersight_client self) server_profile_name organization_name"
  let ?zs = "zoneset_requests self zone_name_a vsan_id_a zone_name_b vsan_id_b zoneset_name_a
             zoneset_name_b flag_add_zones_to_zonesets flag_activate_zonesets (config_request s)"
  let ?ar = "adapter_requests self server_profile_name zone_name_a vsan_id_a zone_name_b vsan_id_b"
  have F: "?ar (Some False) (config_request s) = (\<lambda>v.
            if vnic_wwpn v = [] then []
            else if placement_switch_id v = ''A'' then
              [config_request s (mds_client_a self)
                 (''zone name '' @ zone_name_a @ '' vsan '' @ vsan_id_a
                    @ '' ;member pwwn '' @ vnic_wwpn v)]
            else if placement_switch_id v = ''B'' then
              [config_request s (mds_client_b self)
                 (''zone name '' @ zone_name_b @ '' vsan '' @ vsan_id_b
                    @ '' ;member pwwn '' @ vnic_wwpn v)]
            else [])"
    by (rule ext) (simp add: adapter_requests_def adapter_commands_def)
  have T: "?ar (Some True) (config_request s) = (\<lambda>v.
            if placement_switch_id v = ''A'' then
              [config_request s (mds_client_a self)
                 (''device-alias database ;device-alias name ''
                    @ server_profile_name @ ''-'' @ placement_switch_id v @ ''-'' @ vnic_name v
                    @ '' pwwn '' @ vnic_wwpn v @ '' ;device-alias commit''),
               config_request s (mds_client_a self)
                 (''zone name '' @ zone_name_a @ '' vsan '' @ vsan_id_a
                    @ '' ;member device-alias ''
                    @ server_profile_name @ ''-'' @ placement_switch_id v @ ''-'' @ vnic_name v)]
            else if placement_switch_id v = ''B'' then
              [config_request s (mds_client_b self)
                 (''device-alias database ;device-alias name ''
                    @ server_profile_name @ ''-'' @ placement_switch_id v @ ''-'' @ vnic_name v
                    @ '' pwwn '' @ vnic_wwpn v @ '' ;device-alias commit''),
               config_request s (mds_client_b self)
                 (''zone name '' @ zone_name_b @ '' vsan '' @ vsan_id_b
                    @ '' ;member device-alias ''
                    @ server_profile_name @ ''-'' @ placement_switch_id v @ ''-'' @ vnic_name v)]
            else [])"
    by (rule ext) (simp add: adapter_requests_def adapter_commands_def Let_def)
  have P: "prefix (posted (?run flag flag_add_zones_to_zonesets flag_activate_zonesets) s)
      (concat (map (?ar flag (config_request s)) ?vs) @ ?zs)" for flag
    by (rule posted_configure_intersight_mds_zones)
  have "list_all (\<lambda>r. \<not> prefix ''device-alias '' (input (ins_api (data r))))
      (concat (map (?ar (Some False) (config_request s)) ?vs) @ ?zs)"
    using adapter_requests_False_not_alias zoneset_requests_not_alias[of self zone_name_a
        vsan_id_a zone_name_b vsan_id_b zoneset_name_a zoneset_name_b flag_add_zones_to_zonesets
        flag_activate_zonesets s]
    by (auto simp: list_all_iff)
  with P[of "Some False"] have N: "list_all (\<lambda>r. \<not> prefix ''device-alias ''
      (input (ins_api (data r))))
      (posted (?run (Some False) flag_add_zones_to_zonesets flag_activate_zonesets) s)"
    by (rule list_all_prefix)
  have M: "device_alias_name \<noteq> [] \<Longrightarrow>
      prefix (posted (configure_zone_and_add_member a zone_name vsan_id (Some wwpn)
          (Some device_alias_name)) s)
        [config_request s a
           (''zone name '' @ zone_name @ '' vsan '' @ vsan_id
              @ '' ;member device-alias '' @ device_alias_name)]"
    using posted_sends(1)[OF sends_configure_zone_and_add_member,
        of a zone_name vsan_id "Some wwpn" "Some device_alias_name" s]
    by (simp add: truthy_Some cfg_request_cfg[symmetric] cfg_request_def)
  show ?thesis
    using P[of "Some False"] P[of "Some True"] N M
    by (auto simp only: F T)
qed

theorem C6_alias_flag_witness:
  "prefix (posted (configure_intersight_mds_zones (lab_bridge lab_vnics) ''srv1'' ''default''
        ''zone-a'' ''100'' ''zone-b'' ''200'' (Some ''zoneset-a'') (Some ''zoneset-b'')
        (Some False) True True) (lab_state lab_ok))
     [config_request (lab_state lab_ok) 0
        ''zone name zone-a vsan 100 ;member pwwn 20:00:00:00:00:00:00:01'',
      config_request (lab_state lab_ok) (Suc 0)
        ''zone name zone-b vsan 200 ;member pwwn 20:00:00:00:00:00:00:02'',
      config_request (lab_state lab_ok) 0 ''zoneset name zoneset-a vsan 100 ;member zone-a'',
      config_request (lab_state lab_ok) (Suc 0) ''zoneset name zoneset-b vsan 200 ;member zone-b'',
      config_request (lab_state lab_ok) 0 ''zoneset activate name zoneset-a vsan 100'',
      config_request (lab_state lab_ok) (Suc 0) ''zoneset activate name zoneset-b vsan 200'']
   \<and> prefix (posted (configure_intersight_mds_zones (lab_bridge lab_vnics) ''srv1'' ''default''
        ''zone-a'' ''100'' ''zone-b'' ''200'' (Some ''zoneset-a'') (Some ''zoneset-b'')
        (Some True) True True) (lab_state lab_ok))
     [config_request (lab_state lab_ok) 0
        ''device-alias database ;device-alias name srv1-A-vHBA0 pwwn 20:00:00:00:00:00:00:01 ;device-alias commit'',
      config_request (lab_state lab_ok) 0
        ''zone name zone-a vsan 100 ;member device-alias srv1-A-vHBA0'',
      config_request (lab_state lab_ok) (Suc 0)
        ''device-alias database ;device-alias name srv1-B-vHBA1 pwwn 20:00:00:00:00:00:00:02 ;device-alias commit'',
      config_request (lab_state lab_ok) (Suc 0)
        ''zone name zone-b vsan 200 ;member device-alias srv1-B-vHBA1'',
      config_request (lab_state lab_ok) 0 ''zoneset name zoneset-a vsan 100 ;member zone-a'',
      config_request (lab_state lab_ok) (Suc 0) ''zoneset name zoneset-b vsan 200 ;member zone-b'',
      config_request (lab_state lab_ok) 0 ''zoneset activate name zoneset-a vsan 100'',
      config_request (lab_state lab_ok) (Suc 0) ''zoneset activate name zoneset-b vsan 200'']
   \<and> prefix (posted (configure_zone_and_add_member 0 ''zone-a'' ''100''
        (Some ''20:00:00:00:00:00:00:01'') (Some ''srv1-A-vHBA0'')) (lab_state lab_ok))
     [config_request (lab_state lab_ok) 0
        ''zone name zone-a vsan 100 ;member device-alias srv1-A-vHBA0'']"
  using C6_alias_flag[of "Some False" "lab_bridge lab_vnics" "''srv1''" "''default''"
      "''zone-a''" "''100''" "''zone-b''" "''200''" "Some ''zoneset-a''" "Some ''zoneset-b''"
      True True "lab_state lab_ok" "''srv1-A-vHBA0''" 0 "''zone-a''" "''100''"
      "''20:00:00:00:00:00:00:01''"]
    C6_alias_flag[of "Some True" "lab_bridge lab_vnics" "''srv1''" "''default''"
      "''zone-a''" "''100''" "''zone-b''" "''200''" "Some ''zoneset-a''" "Some ''zoneset-b''"
      True True "lab_state lab_ok" "''srv1-A-vHBA0''" 0 "''zone-a''" "''100''"
      "''20:00:00:00:00:00:00:01''"]
  by (simp add: fetched_vnics_lab lab_bridge_clients lab_vnics_def zoneset_requests_def
      add_requests_def activate_requests_def)

text \<open>
  C7: from any state, whatever was called before, one pass of the loop body for an
  adapter of fabric A or B uses the alias \<open>{server_profile_name}-{fabric}-{name}\<close>,
  spelled from these three strings alone: in the alias creation, and in the zone-member
  command after it; the loop body of
  \<open>add_device_aliases_from_server_profile_name_and_vhba\<close> builds the same name.
\<close>

theorem C7_device_alias_name:
  assumes "placement_switch_id v = ''A'' \<or> placement_switch_id v = ''B''"
  shows
   "prefix (posted (configure_intersight_mds_zones_body self server_profile_name zone_name_a
        vsan_id_a zone_name_b vsan_id_b (Some True) (vhba_dict v)) s)
      (map (config_request s
              (if placement_switch_id v = ''A'' then mds_client_a self else mds_client_b self))
        [''device-alias database ;device-alias name ''
           @ server_profile_name @ ''-'' @ placement_switch_id v @ ''-'' @ vnic_name v
           @ '' pwwn '' @ vnic_wwpn v @ '' ;device-alias commit'',
         ''zone name '' @ (if placement_switch_id v = ''A'' then zone_name_a else zone_name_b)
           @ '' vsan '' @ (if placement_switch_id v = ''A'' then vsan_id_a else vsan_id_b)
           @ '' ;member device-alias ''
           @ server_profile_name @ ''-'' @ placement_switch_id v @ ''-'' @ vnic_name v])
    \<and> (\<not> isl (fst (configure_intersight_mds_zones_body self server_profile_name zone_name_a
              vsan_id_a zone_name_b vsan_id_b (Some True) (vhba_dict v) s)) \<longrightarrow>
        posted (configure_intersight_mds_zones_body self server_profile_name zone_name_a
            vsan_id_a zone_name_b vsan_id_b (Some True) (vhba_dict v)) s
          = map (config_request s
              (if placement_switch_id v = ''A'' then mds_client_a self else mds_client_b self))
            [''device-alias database ;device-alias name ''
               @ server_profile_name @ ''-'' @ placement_switch_id v @ ''-'' @ vnic_name v
               @ '' pwwn '' @ vnic_wwpn v @ '' ;device-alias commit'',
             ''zone name '' @ (if placement_switch_id v = ''A'' then zone_name_a else zone_name_b)
               @ '' vsan '' @ (if placement_switch_id v = ''A'' then vsan_id_a else vsan_id_b)
               @ '' ;member device-alias ''
               @ server_profile_name @ ''-'' @ placement_switch_id v @ ''-'' @ vnic_name v])
    \<and> prefix (posted (add_device_aliases_body self server_profile_name (vhba_dict v)) s)
        [config_request s
           (if placement_switch_id v = ''A'' then mds_client_a self else mds_client_b self)
           (''device-alias database ;device-alias name ''
              @ server_profile_name @ ''-'' @ placement_switch_id v @ ''-'' @ vnic_name v
              @ '' pwwn '' @ vnic_wwpn v @ '' ;device-alias commit'')]"
proof -
  let ?body = "configure_intersight_mds_zones_body self server_profile_name zone_name_a
        vsan_id_a zone_name_b vsan_id_b (Some True) (vhba_dict v)"
  have E: "adapter_requests self server_profile_name zone_name_a vsan_id_a zone_name_b vsan_id_b
       (Some True) (config_request s) v
     = map (config_request s
              (if placement_switch_id v = ''A'' then mds_client_a self else mds_client_b self))
        [''device-alias database ;device-alias name ''
           @ server_profile_name @ ''-'' @ placement_switch_id v @ ''-'' @ vnic_name v
           @ '' pwwn '' @ vnic_wwpn v @ '' ;device-alias commit'',
         ''zone name '' @ (if placement_switch_id v = ''A'' then zone_name_a else zone_name_b)
           @ '' vsan '' @ (if placement_switch_id v = ''A'' then vsan_id_a else vsan_id_b)
           @ '' ;member device-alias ''
           @ server_profile_name @ ''-'' @ placement_switch_id v @ ''-'' @ vnic_name v]"
    using assms by (auto simp: adapter_requests_def adapter_commands_def Let_def)
  have 1: "prefix (posted ?body s) (adapter_requests self server_profile_name zone_name_a
       vsan_id_a zone_name_b vsan_id_b (Some True) (config_request s) v)"
    using posted_sends(1)[OF sends_body, of self server_profile_name zone_name_a vsan_id_a
        zone_name_b vsan_id_b "Some True" v s]
    by (simp add: cfg_request_cfg)
  have 2: "\<not> isl (fst (?body s)) \<Longrightarrow> posted ?body s = adapter_requests self server_profile_name
       zone_name_a vsan_id_a zone_name_b vsan_id_b (Some True) (config_request s) v"
    using posted_sends(2)[OF sends_body, of self server_profile_name zone_name_a vsan_id_a
        zone_name_b vsan_id_b "Some True" v s]
    by (simp add: cfg_request_cfg)
  have 3: "prefix (posted (add_device_aliases_body self server_profile_name (vhba_dict v)) s)
        [config_request s
           (if placement_switch_id v = ''A'' then mds_client_a self else mds_client_b self)
           (''device-alias database ;device-alias name ''
              @ server_profile_name @ ''-'' @ placement_switch_id v @ ''-'' @ vnic_name v
              @ '' pwwn '' @ vnic_wwpn v @ '' ;device-alias commit'')]"
    using posted_sends(1)[OF sends_add_device_aliases_body, of self server_profile_name v s] assms
    by (auto simp: cfg_request_cfg split: if_splits)
  from 1 2 3 show ?thesis unfolding E by blast
qed

theorem C7_device_alias_name_witness:
  "posted (configure_intersight_mds_zones_body (lab_bridge []) ''srv1'' ''zone-a'' ''100''
      ''zone-b'' ''200'' (Some True)
      (vhba_dict \<lparr>vnic_wwpn = ''20:00:00:00:00:00:00:01'', vnic_name = ''vHBA0'',
         placement_switch_id = ''A''\<rparr>)) (lab_state lab_ok)
    = [config_request (lab_state lab_ok) 0
         ''device-alias database ;device-alias name srv1-A-vHBA0 pwwn 20:00:00:00:00:00:00:01 ;device-alias commit'',
       config_request (lab_state lab_ok) 0
         ''zone name zone-a vsan 100 ;member device-alias srv1-A-vHBA0'']"
  using C7_device_alias_name[of "\<lparr>vnic_wwpn = ''20:00:00:00:00:00:00:01'', vnic_name = ''vHBA0'',
         placement_switch_id = ''A''\<rparr>" "lab_bridge []" "''srv1''" "''zone-a''" "''100''"
         "''zone-b''" "''200''" "lab_state lab_ok"]
    body_lab_returns
  by (simp add: lab_bridge_clients)

text \<open>
  C8: in \<open>add_zones_to_zonesets\<close>, in \<open>activate_zonesets\<close> and in the two stages
  of the full workflow, the requests posted are an initial segment of A's request
  followed by B's: B's is never posted unless A's was posted just before it.
\<close>

theorem C8_fabric_a_first:
  "prefix (posted (add_zones_to_zonesets self zoneset_name_a zone_name_a vsan_id_a
        zoneset_name_b zone_name_b vsan_id_b) s)
     [config_request s (mds_client_a self)
        (''zoneset name '' @ zoneset_name_a @ '' vsan '' @ vsan_id_a @ '' ;member '' @ zone_name_a),
      config_request s (mds_client_b self)
        (''zoneset name '' @ zoneset_name_b @ '' vsan '' @ vsan_id_b @ '' ;member '' @ zone_name_b)]
   \<and> prefix (posted (activate_zonesets self zoneset_name_a vsan_id_a zoneset_name_b vsan_id_b) s)
     [config_request s (mds_client_a self)
        (''zoneset activate name '' @ zoneset_name_a @ '' vsan '' @ vsan_id_a),
      config_request s (mds_client_b self)
        (''zoneset activate name '' @ zoneset_name_b @ '' vsan '' @ vsan_id_b)]
   \<and> prefix (posted (configure_intersight_mds_zones self server_profile_name organization_name
        zone_name_a vsan_id_a zone_name_b vsan_id_b (Some zoneset_name_a) (Some zoneset_name_b)
        flag_configure_device_aliases flag_add_zones_to_zonesets flag_activate_zonesets) s)
     (concat (map (adapter_requests self server_profile_name zone_name_a vsan_id_a
            zone_name_b vsan_id_b flag_configure_device_aliases (config_request s))
          (fetched_vnics (intersight_client self) server_profile_name organization_name))
      @ (if flag_add_zones_to_zonesets then
           [config_request s (mds_client_a self)
              (''zoneset name '' @ zoneset_name_a @ '' vsan '' @ vsan_id_a
                 @ '' ;member '' @ zone_name_a),
            config_request s (mds_client_b self)
              (''zoneset name '' @ zoneset_name_b @ '' vsan '' @ vsan_id_b
                 @ '' ;member '' @ zone_name_b)]
         else [])
      @ (if flag_activate_zonesets then
           [config_request s (mds_client_a self)
              (''zoneset activate name '' @ zoneset_name_a @ '' vsan '' @ vsan_id_a),
            config_request s (mds_client_b self)
              (''zoneset activate name '' @ zoneset_name_b @ '' vsan '' @ vsan_id_b)]
         else []))"
  using posted_sends(1)[OF sends_add_zones_to_zonesets,
      of self zoneset_name_a zone_name_a vsan_id_a zoneset_name_b zone_name_b vsan_id_b s]
    posted_sends(1)[OF sends_activate_zonesets,
      of self zoneset_name_a vsan_id_a zoneset_name_b vsan_id_b s]
    posted_configure_intersight_mds_zones[of self server_profile_name organization_name
        zone_name_a vsan_id_a zone_name_b vsan_id_b "Some zoneset_name_a" "Some zoneset_name_b"
        flag_configure_device_aliases flag_add_zones_to_zonesets flag_activate_zonesets s]
  by (simp add: cfg_request_cfg add_requests_def activate_requests_def zoneset_requests_def
      cong: if_cong)

text \<open>
  C9, as stated: a call to \<open>post_request\<close> leaves the client's stored state, payload
  template included, as it was.  It does not: after one request on a freshly built client
  the stored payload holds that request's input and type.
\<close>

theorem C9_payload_mutated:
  "heap (snd (post_request 0 ''show zone name z1 vsan 100'' ''cli_show'' (lab_state lab_ok))) 0
     \<noteq> heap (lab_state lab_ok) 0"
  by (simp add: heap_post_request lab_state_def built_client_def)

text \<open>
  C9, amended: \<open>post_request\<close> writes the request's input and type into the client's
  one stored payload and changes nothing else in the store; it posts exactly one request,
  whose body is that stored payload; and since both fields are overwritten before each
  send, what a request sends after any earlier request is what it sends without it.
\<close>

theorem C9_envelope_overwritten:
  "heap (snd (post_request self i t s)) =
     (heap s)(self := (heap s self)\<lparr>api_payload := (api_payload (heap s self))\<lparr>ins_api :=
        (ins_api (api_payload (heap s self)))\<lparr>input := i, type := t\<rparr>\<rparr>\<rparr>)
   \<and> posted (post_request self i t) s = [mds_request (heap s self) t i]
   \<and> data (mds_request (heap s self) t i) = api_payload (heap (snd (post_request self i t s)) self)
   \<and> posted (post_request self i t) (snd (post_request self' i' t' s))
       = posted (post_request self i t) s"
  by (simp add: heap_post_request posted_post_request mds_request_def)

text \<open>
  C10: a record built by \<open>fetch_vhba_from_server_profile_moid\<close> has no key
  \<open>fabric\<close> and no key \<open>name\<close>.  So for a fabric tag other than \<open>A\<close> and
  \<open>B\<close> (and a flag that is \<open>True\<close> or \<open>False\<close>) the loop body ends in
  \<open>KeyError('fabric')\<close> with no error logged and nothing posted, and the loop ends
  with it; so does the loop body of the alias-only operation.
\<close>

theorem C10_unknown_fabric_key_error:
  assumes "placement_switch_id v \<noteq> ''A''" and "placement_switch_id v \<noteq> ''B''"
    and "flag \<noteq> None"
  shows "dict_getitem (vhba_dict v) ''fabric'' = Inl (KeyError ''fabric'')
    \<and> dict_getitem (vhba_dict v) ''name'' = Inl (KeyError ''name'')
    \<and> fst (configure_intersight_mds_zones_body self p za va zb vb flag (vhba_dict v) s)
        = Inl (KeyError ''fabric'')
    \<and> \<not> list_ex is_error_log
          (emitted (configure_intersight_mds_zones_body self p za va zb vb flag (vhba_dict v)) s)
    \<and> posted (configure_intersight_mds_zones_body self p za va zb vb flag (vhba_dict v)) s = []
    \<and> fst (for_each (configure_intersight_mds_zones_body self p za va zb vb flag)
             (vhba_dict v # rest) s) = Inl (KeyError ''fabric'')
    \<and> fst (add_device_aliases_body self p (vhba_dict v) s) = Inl (KeyError ''fabric'')
    \<and> emitted (add_device_aliases_body self p (vhba_dict v)) s = []"
proof -
  from assms(3) consider "flag = Some True" | "flag = Some False" by (cases flag) auto
  then show ?thesis
  proof cases
    case 1
    then show ?thesis
      using body_unknown_fabric_True[OF assms(1,2)] alias_body_unknown_fabric[OF assms(1,2)]
      by (simp add: posted_def emitted_def bindE_def vhba_dict_def dict_getitem_def)
  next
    case 2
    then show ?thesis
      using body_unknown_fabric_False[OF assms(1,2)] alias_body_unknown_fabric[OF assms(1,2)]
      by (simp add: posted_def emitted_def bindE_def vhba_dict_def dict_getitem_def)
  qed
qed

theorem C10_unknown_fabric_key_error_witness:
  "fst (configure_intersight_mds_zones_body (lab_bridge [lab_unplaced]) ''srv1'' ''zone-a'' ''100''
          ''zone-b'' ''200'' (Some True) (vhba_dict lab_unplaced) (lab_state lab_ok))
        = Inl (KeyError ''fabric'')
    \<and> \<not> list_ex is_error_log
          (emitted (configure_intersight_mds_zones_body (lab_bridge [lab_unplaced]) ''srv1''
             ''zone-a'' ''100'' ''zone-b'' ''200'' (Some True) (vhba_dict lab_unplaced))
             (lab_state lab_ok))
    \<and> fst (add_device_aliases_body (lab_bridge [lab_unplaced]) ''srv1'' (vhba_dict lab_unplaced)
             (lab_state lab_ok)) = Inl (KeyError ''fabric'')"
  using C10_unknown_fabric_key_error[of lab_unplaced "Some True" "lab_bridge [lab_unplaced]"
      "''srv1''" "''zone-a''" "''100''" "''zone-b''" "''200''" "lab_state lab_ok" "[]"]
  by (simp add: lab_unplaced_def)

end
